theory Spec2Isabelle
  imports Complex_Main
begin

section \<open>Numbers\<close>

text \<open>
  The source computes with C++ \<^verbatim>\<open>double\<close> (and \<^verbatim>\<open>float\<close>) values. Two number types
  are used in this development.

  \<^item> The kinematic quantities (pt, eta, phi), the angular distances, the isolation sums,
    the impact parameters and the shower variables of an electron, which the code
    compares against constants or divides by a value it has checked before, are
    \<^typ>\<open>real\<close>: a finite number, with exact arithmetic.
  \<^item> The number of degrees of freedom of a vertex, and the quantities that enter a
    division or a square root the code does not guard, or that the code tests with
    \<^verbatim>\<open>std::isfinite\<close>, are of type \<open>dbl\<close> below: a real number, a signed zero, a
    signed infinity or NaN, with the IEEE 754 rules for the special values (\<^verbatim>\<open>x/0\<close>,
    \<^verbatim>\<open>0/0\<close>, \<^verbatim>\<open>sqrt\<close> of a negative number, comparisons with NaN).

  Rounding, overflow and underflow of finite results are not modelled in either type.
\<close>

datatype dbl = NaN | PInf | NInf | NZero | Fin real

text \<open>\<open>Fin 0\<close> is the positive zero, \<open>NZero\<close> the negative zero.\<close>

fun is_nan :: "dbl \<Rightarrow> bool" where
  "is_nan NaN = True"
| "is_nan _ = False"

fun is_inf :: "dbl \<Rightarrow> bool" where
  "is_inf PInf = True"
| "is_inf NInf = True"
| "is_inf _ = False"

fun is_zero :: "dbl \<Rightarrow> bool" where
  "is_zero NZero = True"
| "is_zero (Fin r) = (r = 0)"
| "is_zero _ = False"

text \<open>The sign bit (of a value that is not NaN).\<close>

fun is_neg :: "dbl \<Rightarrow> bool" where
  "is_neg NInf = True"
| "is_neg NZero = True"
| "is_neg (Fin r) = (r < 0)"
| "is_neg _ = False"

text \<open>The real value of a finite number (both zeros are 0).\<close>

fun fin_val :: "dbl \<Rightarrow> real" where
  "fin_val (Fin r) = r"
| "fin_val _ = 0"

definition signed_inf :: "bool \<Rightarrow> dbl" where
  "signed_inf neg = (if neg then NInf else PInf)"

definition signed_zero :: "bool \<Rightarrow> dbl" where
  "signed_zero neg = (if neg then NZero else Fin 0)"

text \<open>\<^verbatim>\<open>std::isfinite\<close>\<close>

fun isfinite :: "dbl \<Rightarrow> bool" where
  "isfinite (Fin r) = True"
| "isfinite NZero = True"
| "isfinite _ = False"

text \<open>Unary minus and \<^verbatim>\<open>fabs\<close>.\<close>

fun dneg :: "dbl \<Rightarrow> dbl" where
  "dneg NaN = NaN"
| "dneg PInf = NInf"
| "dneg NInf = PInf"
| "dneg NZero = Fin 0"
| "dneg (Fin r) = (if r = 0 then NZero else Fin (- r))"

fun fabs :: "dbl \<Rightarrow> dbl" where
  "fabs NaN = NaN"
| "fabs PInf = PInf"
| "fabs NInf = PInf"
| "fabs NZero = Fin 0"
| "fabs (Fin r) = Fin \<bar>r\<bar>"

text \<open>
  Addition: opposite infinities give NaN; the sum of two negative zeros is the negative
  zero, every other zero sum is the positive zero (rounding to nearest).
\<close>

fun dadd :: "dbl \<Rightarrow> dbl \<Rightarrow> dbl" where
  "dadd NaN _ = NaN"
| "dadd _ NaN = NaN"
| "dadd PInf NInf = NaN"
| "dadd NInf PInf = NaN"
| "dadd PInf _ = PInf"
| "dadd _ PInf = PInf"
| "dadd NInf _ = NInf"
| "dadd _ NInf = NInf"
| "dadd NZero NZero = NZero"
| "dadd NZero (Fin r) = Fin r"
| "dadd (Fin r) NZero = Fin r"
| "dadd (Fin a) (Fin b) = Fin (a + b)"

definition dsub :: "dbl \<Rightarrow> dbl \<Rightarrow> dbl" where
  "dsub a b = dadd a (dneg b)"

text \<open>
  Division: \<^verbatim>\<open>inf/inf\<close> and \<^verbatim>\<open>0/0\<close> are NaN; a non-zero number over a zero is an
  infinity; the sign of an infinite or zero quotient is the exclusive or of the signs.
\<close>

definition ddiv :: "dbl \<Rightarrow> dbl \<Rightarrow> dbl" where
  "ddiv a b =
     (if is_nan a \<or> is_nan b then NaN
      else if is_inf a then (if is_inf b then NaN else signed_inf (is_neg a \<noteq> is_neg b))
      else if is_inf b then signed_zero (is_neg a \<noteq> is_neg b)
      else if is_zero b then (if is_zero a then NaN else signed_inf (is_neg a \<noteq> is_neg b))
      else if is_zero a then signed_zero (is_neg a \<noteq> is_neg b)
      else Fin (fin_val a / fin_val b))"

text \<open>\<^verbatim>\<open>std::sqrt\<close>: NaN below zero, and the square root of the negative zero is itself.\<close>

fun dsqrt :: "dbl \<Rightarrow> dbl" where
  "dsqrt NaN = NaN"
| "dsqrt PInf = PInf"
| "dsqrt NInf = NaN"
| "dsqrt NZero = NZero"
| "dsqrt (Fin r) = (if r < 0 then NaN else Fin (sqrt r))"

text \<open>\<^verbatim>\<open>atan\<close>\<close>

fun datan :: "dbl \<Rightarrow> dbl" where
  "datan NaN = NaN"
| "datan PInf = Fin (pi / 2)"
| "datan NInf = Fin (- (pi / 2))"
| "datan NZero = NZero"
| "datan (Fin r) = Fin (arctan r)"

text \<open>
  The comparisons \<^verbatim>\<open><\<close>, \<^verbatim>\<open>>\<close>, \<^verbatim>\<open><=\<close> and \<^verbatim>\<open>==\<close>: false as soon as one side is
  NaN.
\<close>

fun dlt :: "dbl \<Rightarrow> dbl \<Rightarrow> bool" where
  "dlt NaN _ = False"
| "dlt _ NaN = False"
| "dlt PInf _ = False"
| "dlt _ NInf = False"
| "dlt NInf _ = True"
| "dlt _ PInf = True"
| "dlt a b = (fin_val a < fin_val b)"

definition dgt :: "dbl \<Rightarrow> dbl \<Rightarrow> bool" where
  "dgt a b = dlt b a"

fun dle :: "dbl \<Rightarrow> dbl \<Rightarrow> bool" where
  "dle NaN _ = False"
| "dle _ NaN = False"
| "dle NInf _ = True"
| "dle _ PInf = True"
| "dle PInf _ = False"
| "dle _ NInf = False"
| "dle a b = (fin_val a \<le> fin_val b)"

fun deq :: "dbl \<Rightarrow> dbl \<Rightarrow> bool" where
  "deq NaN _ = False"
| "deq _ NaN = False"
| "deq PInf b = (b = PInf)"
| "deq NInf b = (b = NInf)"
| "deq a PInf = False"
| "deq a NInf = False"
| "deq a b = (fin_val a = fin_val b)"

text \<open>
  \<^verbatim>\<open>std::max(a,b)\<close> is \<^verbatim>\<open>(a < b) ? b : a\<close> and \<^verbatim>\<open>std::min(a,b)\<close> is
  \<^verbatim>\<open>(b < a) ? b : a\<close>.
\<close>

definition std_max :: "dbl \<Rightarrow> dbl \<Rightarrow> dbl" where
  "std_max a b = (if dlt a b then b else a)"

definition std_min :: "dbl \<Rightarrow> dbl \<Rightarrow> dbl" where
  "std_min a b = (if dlt b a then b else a)"

section \<open>Vertices\<close>

text \<open>
  A \<^verbatim>\<open>reco::Vertex\<close>, with the two attributes the selection reads. The position is
  only handed on to the impact parameter functions of a track, which take the vertex.
\<close>

record vertex =
  isFake :: bool
  ndof :: dbl

text \<open>
  The loop of \<^verbatim>\<open>PatMuonFilter::produce\<close> and \<^verbatim>\<open>MiniFromPat::recoAnalysis\<close> over the
  vertex collection: \<open>i\<close> is the loop index, \<open>prVtx\<close> the variable of that name.

  \<^verbatim>\<open>
  int prVtx = -1;
  for (size_t i = 0; i < vertices->size(); i++) {
      if (vertices->at(i).isFake()) continue;
      if (vertices->at(i).ndof() <= 4) continue;
      if (prVtx < 0) prVtx = i;
  }
  \<close>
\<close>

fun prVtx_loop :: "vertex list \<Rightarrow> nat \<Rightarrow> int \<Rightarrow> int" where
  "prVtx_loop [] i prVtx = prVtx"
| "prVtx_loop (v # vs) i prVtx =
     (if isFake v then prVtx_loop vs (Suc i) prVtx
      else if dle (ndof v) (Fin 4) then prVtx_loop vs (Suc i) prVtx
      else if prVtx < 0 then prVtx_loop vs (Suc i) (int i)
      else prVtx_loop vs (Suc i) prVtx)"

definition find_prVtx :: "vertex list \<Rightarrow> int" where
  "find_prVtx vertices = prVtx_loop vertices 0 (- 1)"

section \<open>Muons and their chamber matches\<close>

text \<open>
  A \<^verbatim>\<open>reco::MuonSegmentMatch\<close> and a \<^verbatim>\<open>reco::MuonChamberMatch\<close>, with the members
  the selections read. \<open>detector\<close> is the value of \<^verbatim>\<open>chamber->detector()\<close> (5 for ME0),
  \<open>ch_id\<close> the detector identifier \<^verbatim>\<open>chamber->id\<close>.
\<close>

record MuonSegmentMatch =
  seg_x :: dbl
  seg_y :: dbl
  seg_xErr :: dbl
  seg_yErr :: dbl
  seg_dXdZ :: dbl

record MuonChamberMatch =
  detector :: int
  ch_id :: nat
  ch_x :: dbl
  ch_y :: dbl
  ch_xErr :: dbl
  ch_yErr :: dbl
  ch_dXdZ :: dbl
  ch_dYdZ :: dbl
  me0Matches :: "MuonSegmentMatch list"

text \<open>The inner track of a muon, when there is one.\<close>

record track =
  numberOfValidPixelHits :: nat
  highPurity :: bool

text \<open>
  A \<^verbatim>\<open>pat::Muon\<close>. The standard identification predicates \<^verbatim>\<open>muon::isLooseMuon\<close>,
  \<^verbatim>\<open>muon::isMediumMuon\<close> and \<^verbatim>\<open>muon::isTightMuon\<close> are not code of this repository:
  their values on the muon are fields of the record, as are the impact parameters
  \<^verbatim>\<open>muonBestTrack()->dxy\<close> and \<^verbatim>\<open>muonBestTrack()->dz\<close> with respect to a vertex.
\<close>

record muon =
  mu_pt :: real
  mu_eta :: real
  mu_phi :: real
  mu_p :: dbl
  mu_charge :: int
  isME0Muon :: bool
  matches :: "MuonChamberMatch list"
  isLooseMuon :: bool
  isMediumMuon :: bool
  isTightMuon :: "vertex \<Rightarrow> bool"
  innerTrack :: "track option"
  bestTrack_dxy :: "vertex \<Rightarrow> real"
  bestTrack_dz :: "vertex \<Rightarrow> real"
  puppiNoLeptonsChargedHadronIso :: real
  puppiNoLeptonsNeutralHadronIso :: real
  puppiNoLeptonsPhotonIso :: real

section \<open>The pull/distance ME0 selection\<close>

text \<open>
  \<^verbatim>\<open>PatMuonFilter::isME0MuonSel\<close> and \<^verbatim>\<open>MiniFromPat::isME0MuonSel\<close> have the same
  body. The five local variables are a record; both loops thread it.
\<close>

record me0_vars =
  deltaX :: dbl
  deltaY :: dbl
  pullX :: dbl
  pullY :: dbl
  deltaPhi :: dbl

definition me0_vars_init :: me0_vars where
  "me0_vars_init =
     \<lparr>deltaX = Fin 999, deltaY = Fin 999, pullX = Fin 999, pullY = Fin 999,
      deltaPhi = Fin 999\<rparr>"

text \<open>The five assignments of the loop body.\<close>

definition me0_pair_vars :: "MuonChamberMatch \<Rightarrow> MuonSegmentMatch \<Rightarrow> me0_vars" where
  "me0_pair_vars chamber segment =
     \<lparr>deltaX = fabs (dsub (ch_x chamber) (seg_x segment)),
      deltaY = fabs (dsub (ch_y chamber) (seg_y segment)),
      pullX = ddiv (fabs (dsub (ch_x chamber) (seg_x segment)))
                (dsqrt (dadd (ch_xErr chamber) (seg_xErr segment))),
      pullY = ddiv (fabs (dsub (ch_y chamber) (seg_y segment)))
                (dsqrt (dadd (ch_yErr chamber) (seg_yErr segment))),
      deltaPhi = fabs (dsub (datan (ch_dXdZ chamber)) (datan (seg_dXdZ segment)))\<rparr>"

fun sel_segments :: "MuonChamberMatch \<Rightarrow> MuonSegmentMatch list \<Rightarrow> me0_vars \<Rightarrow> me0_vars" where
  "sel_segments chamber [] v = v"
| "sel_segments chamber (segment # segments) v =
     (if detector chamber = 5
      then sel_segments chamber segments (me0_pair_vars chamber segment)
      else sel_segments chamber segments v)"

fun sel_chambers :: "MuonChamberMatch list \<Rightarrow> me0_vars \<Rightarrow> me0_vars" where
  "sel_chambers [] v = v"
| "sel_chambers (chamber # chambers) v =
     sel_chambers chambers (sel_segments chamber (me0Matches chamber) v)"

definition isME0MuonSel :: "muon \<Rightarrow> dbl \<Rightarrow> dbl \<Rightarrow> dbl \<Rightarrow> dbl \<Rightarrow> dbl \<Rightarrow> bool" where
  "isME0MuonSel mu pullXCut dXCut pullYCut dYCut dPhi =
     (if isME0Muon mu then
        (let v = sel_chambers (matches mu) me0_vars_init;
             X_MatchFound = (dlt (pullX v) pullXCut \<or> dlt (deltaX v) dXCut);
             Y_MatchFound = (dlt (pullY v) pullYCut \<or> dlt (deltaY v) dYCut);
             Dir_MatchFound = dlt (deltaPhi v) dPhi
         in X_MatchFound \<and> Y_MatchFound \<and> Dir_MatchFound)
      else False)"

section \<open>The angle/eta ME0 selection\<close>

text \<open>
  The detector geometry is not code of this repository. \<^verbatim>\<open>ME0Geometry_->chamber(id)\<close>
  is a lookup that gives a null pointer for an identifier the geometry does not know; the
  code dereferences the pointer without a test, which is the error \<open>NullChamber\<close>. Of a
  chamber the selection uses:
  \<^item> \<open>glb_eta x y\<close>, the pseudorapidity of \<^verbatim>\<open>toGlobal(LocalPoint(x, y, 0))\<close>;
  \<^item> \<open>glb_dphi x1 y1 x2 y2\<close>, the difference
    \<^verbatim>\<open>toGlobal(LocalPoint(x1, y1, 0)).phi() - toGlobal(LocalPoint(x2, y2, 0)).phi()\<close>
    of the two azimuths;
  \<^item> \<open>computeDeltaPhi x y dxdz dydz\<close>, the bending angle
    \<^verbatim>\<open>computeDeltaPhi(LocalPoint(x, y, 0), LocalVector(dxdz, dydz, 1))\<close>.
\<close>

record ME0Chamber =
  glb_eta :: "dbl \<Rightarrow> dbl \<Rightarrow> dbl"
  glb_dphi :: "dbl \<Rightarrow> dbl \<Rightarrow> dbl \<Rightarrow> dbl \<Rightarrow> dbl"
  computeDeltaPhi :: "dbl \<Rightarrow> dbl \<Rightarrow> dbl \<Rightarrow> dbl \<Rightarrow> dbl"

type_synonym ME0Geometry = "nat \<Rightarrow> ME0Chamber option"

text \<open>
  \<open>OutOfRange\<close> is the exception \<^verbatim>\<open>std::out_of_range\<close> of \<^verbatim>\<open>std::vector::at\<close>.
\<close>

datatype error = OutOfRange | NullChamber

text \<open>The test of one (chamber, segment) pair, for a chamber the geometry knows.\<close>

definition new_pair_passes ::
  "ME0Chamber \<Rightarrow> MuonChamberMatch \<Rightarrow> MuonSegmentMatch \<Rightarrow> dbl \<Rightarrow> dbl \<Rightarrow> dbl \<Rightarrow> bool" where
  "new_pair_passes me0chamber chamber segment dEtaCut dPhiCut dPhiBendCut =
     (let segDPhi = fabs (dsub (datan (ch_dXdZ chamber)) (datan (seg_dXdZ segment)));
          trackDPhi = computeDeltaPhi me0chamber (ch_x chamber) (ch_y chamber)
                        (ch_dXdZ chamber) (ch_dYdZ chamber);
          deltaEta = fabs (dsub (glb_eta me0chamber (ch_x chamber) (ch_y chamber))
                             (glb_eta me0chamber (seg_x segment) (seg_y segment)));
          deltaPhi = fabs (glb_dphi me0chamber (ch_x chamber) (ch_y chamber)
                             (seg_x segment) (seg_y segment));
          deltaPhiBend = fabs (dsub segDPhi trackDPhi)
      in dlt deltaEta dEtaCut \<and> dlt deltaPhi dPhiCut \<and> dlt deltaPhiBend dPhiBendCut)"

fun new_segments ::
  "ME0Geometry \<Rightarrow> MuonChamberMatch \<Rightarrow> MuonSegmentMatch list \<Rightarrow> dbl \<Rightarrow> dbl \<Rightarrow> dbl \<Rightarrow> bool
   \<Rightarrow> error + bool" where
  "new_segments geom chamber [] dEtaCut dPhiCut dPhiBendCut result = Inr result"
| "new_segments geom chamber (segment # segments) dEtaCut dPhiCut dPhiBendCut result =
     (case geom (ch_id chamber) of
        None \<Rightarrow> Inl NullChamber
      | Some me0chamber \<Rightarrow>
          new_segments geom chamber segments dEtaCut dPhiCut dPhiBendCut
            (if new_pair_passes me0chamber chamber segment dEtaCut dPhiCut dPhiBendCut
             then True else result))"

fun new_chambers ::
  "ME0Geometry \<Rightarrow> MuonChamberMatch list \<Rightarrow> dbl \<Rightarrow> dbl \<Rightarrow> dbl \<Rightarrow> bool \<Rightarrow> error + bool" where
  "new_chambers geom [] dEtaCut dPhiCut dPhiBendCut result = Inr result"
| "new_chambers geom (chamber # chambers) dEtaCut dPhiCut dPhiBendCut result =
     (if detector chamber = 5 then
        (case new_segments geom chamber (me0Matches chamber) dEtaCut dPhiCut dPhiBendCut
                result of
           Inl e \<Rightarrow> Inl e
         | Inr r \<Rightarrow> new_chambers geom chambers dEtaCut dPhiCut dPhiBendCut r)
      else new_chambers geom chambers dEtaCut dPhiCut dPhiBendCut result)"

definition isME0MuonSelNew ::
  "ME0Geometry \<Rightarrow> muon \<Rightarrow> dbl \<Rightarrow> dbl \<Rightarrow> dbl \<Rightarrow> error + bool" where
  "isME0MuonSelNew geom mu dEtaCut dPhiCut dPhiBendCut =
     (if isME0Muon mu
      then new_chambers geom (matches mu) dEtaCut dPhiCut dPhiBendCut False
      else Inr False)"

section \<open>The muon filter\<close>

text \<open>
  The momentum dependent cuts of \<^verbatim>\<open>PatMuonFilter::produce\<close>. The source assigns the
  variables \<^verbatim>\<open>dPhiCut_\<close> and \<^verbatim>\<open>dPhiBendCut_\<close> twice, first for the loose and medium
  tiers and then for the tight tier:

  \<^verbatim>\<open>
  double dPhiCut_ = std::min(std::max(1.2/mom,1.2/100),0.056);
  double dPhiBendCut_ = std::min(std::max(0.2/mom,0.2/100),0.0096);
  ...
  dPhiCut_ = std::min(std::max(1.2/mom,1.2/100),0.032);
  dPhiBendCut_ = std::min(std::max(0.2/mom,0.2/100),0.0041);
  \<close>
\<close>

definition dPhiCut_loose :: "dbl \<Rightarrow> dbl" where
  "dPhiCut_loose mom =
     std_min (std_max (ddiv (Fin 1.2) mom) (ddiv (Fin 1.2) (Fin 100))) (Fin 0.056)"

definition dPhiBendCut_loose :: "dbl \<Rightarrow> dbl" where
  "dPhiBendCut_loose mom =
     std_min (std_max (ddiv (Fin 0.2) mom) (ddiv (Fin 0.2) (Fin 100))) (Fin 0.0096)"

definition dPhiCut_tight :: "dbl \<Rightarrow> dbl" where
  "dPhiCut_tight mom =
     std_min (std_max (ddiv (Fin 1.2) mom) (ddiv (Fin 1.2) (Fin 100))) (Fin 0.032)"

definition dPhiBendCut_tight :: "dbl \<Rightarrow> dbl" where
  "dPhiBendCut_tight mom =
     std_min (std_max (ddiv (Fin 0.2) mom) (ddiv (Fin 0.2) (Fin 100))) (Fin 0.0041)"

text \<open>
  \<^verbatim>\<open>vertices->at(prVtx)\<close>: the \<^verbatim>\<open>int\<close> index is converted to \<^verbatim>\<open>size_t\<close>, so a
  negative index is a huge one, and \<^verbatim>\<open>at\<close> throws for every index that is not below
  the size.
\<close>

definition vertices_at :: "vertex list \<Rightarrow> int \<Rightarrow> error + vertex" where
  "vertices_at vertices i =
     (if 0 \<le> i \<and> i < int (length vertices) then Inr (vertices ! nat i)
      else Inl OutOfRange)"

text \<open>
  The body of the muon loop of \<^verbatim>\<open>produce\<close> after the two kinematic tests: the three
  conditions under which the muon is pushed to the loose, medium and tight vectors, and
  its relative isolation.
\<close>

record muon_tiers =
  inLoose :: bool
  inMedium :: bool
  inTight :: bool
  relIso :: real

definition produce_muon ::
  "ME0Geometry \<Rightarrow> vertex list \<Rightarrow> int \<Rightarrow> muon \<Rightarrow> error + muon_tiers" where
  "produce_muon geom vertices prVtx mu =
     (case vertices_at vertices prVtx of
        Inl e \<Rightarrow> Inl e
      | Inr priVertex \<Rightarrow>
     (let isLoose = isLooseMuon mu;
          isMedium = isMediumMuon mu;
          isTight = (- 0.5 < real_of_int prVtx \<and> isTightMuon mu priVertex);
          mom = mu_p mu
      in
      case isME0MuonSelNew geom mu (Fin 0.077) (dPhiCut_loose mom) (dPhiBendCut_loose mom) of
        Inl e \<Rightarrow> Inl e
      | Inr isLooseME0 \<Rightarrow>
     (let ipxy = (case innerTrack mu of None \<Rightarrow> False
                  | Some t \<Rightarrow> \<bar>bestTrack_dxy mu priVertex\<bar> < 0.2);
          ipz = (case innerTrack mu of None \<Rightarrow> False
                 | Some t \<Rightarrow> \<bar>bestTrack_dz mu priVertex\<bar> < 0.5);
          validPxlHit = (case innerTrack mu of None \<Rightarrow> False
                         | Some t \<Rightarrow> 0 < numberOfValidPixelHits t);
          highPurity = (case innerTrack mu of None \<Rightarrow> False | Some t \<Rightarrow> highPurity t)
      in
      case isME0MuonSelNew geom mu (Fin 0.077) (dPhiCut_loose mom) (dPhiBendCut_loose mom) of
        Inl e \<Rightarrow> Inl e
      | Inr selMedium \<Rightarrow>
     (let isMediumME0 = (selMedium \<and> ipxy \<and> validPxlHit \<and> highPurity)
      in
      case isME0MuonSelNew geom mu (Fin 0.048) (dPhiCut_tight mom) (dPhiBendCut_tight mom) of
        Inl e \<Rightarrow> Inl e
      | Inr selTight \<Rightarrow>
     (let isTightME0 = (selTight \<and> ipxy \<and> ipz \<and> validPxlHit \<and> highPurity);
          relIso = (puppiNoLeptonsChargedHadronIso mu + puppiNoLeptonsNeutralHadronIso mu
                    + puppiNoLeptonsPhotonIso mu) / mu_pt mu
      in Inr \<lparr>inLoose = (isLoose \<or> (2.4 < \<bar>mu_eta mu\<bar> \<and> isLooseME0)),
              inMedium = (isMedium \<or> (2.4 < \<bar>mu_eta mu\<bar> \<and> isMediumME0)),
              inTight = (isTight \<or> (2.4 < \<bar>mu_eta mu\<bar> \<and> isTightME0)),
              relIso = relIso\<rparr>)))))"

text \<open>The six output collections of the filter.\<close>

record filter_output =
  LooseMuons :: "muon list"
  LooseMuonRelIso :: "real list"
  MediumMuons :: "muon list"
  MediumMuonRelIso :: "real list"
  TightMuons :: "muon list"
  TightMuonRelIso :: "real list"

definition push_muon :: "muon \<Rightarrow> muon_tiers \<Rightarrow> filter_output \<Rightarrow> filter_output" where
  "push_muon mu t out =
     (let out1 = (if inLoose t
                  then out\<lparr>LooseMuons := LooseMuons out @ [mu],
                           LooseMuonRelIso := LooseMuonRelIso out @ [relIso t]\<rparr>
                  else out);
          out2 = (if inMedium t
                  then out1\<lparr>MediumMuons := MediumMuons out1 @ [mu],
                            MediumMuonRelIso := MediumMuonRelIso out1 @ [relIso t]\<rparr>
                  else out1)
      in if inTight t
         then out2\<lparr>TightMuons := TightMuons out2 @ [mu],
                   TightMuonRelIso := TightMuonRelIso out2 @ [relIso t]\<rparr>
         else out2)"

fun produce_loop ::
  "ME0Geometry \<Rightarrow> vertex list \<Rightarrow> int \<Rightarrow> muon list \<Rightarrow> filter_output
   \<Rightarrow> error + filter_output" where
  "produce_loop geom vertices prVtx [] out = Inr out"
| "produce_loop geom vertices prVtx (mu # muons) out =
     (if mu_pt mu < 2 then produce_loop geom vertices prVtx muons out
      else if 3 < \<bar>mu_eta mu\<bar> then produce_loop geom vertices prVtx muons out
      else (case produce_muon geom vertices prVtx mu of
              Inl e \<Rightarrow> Inl e
            | Inr t \<Rightarrow> produce_loop geom vertices prVtx muons (push_muon mu t out)))"

definition produce :: "ME0Geometry \<Rightarrow> vertex list \<Rightarrow> muon list \<Rightarrow> error + filter_output" where
  "produce geom vertices muons =
     produce_loop geom vertices (find_prVtx vertices) muons
       \<lparr>LooseMuons = [], LooseMuonRelIso = [], MediumMuons = [], MediumMuonRelIso = [],
        TightMuons = [], TightMuonRelIso = []\<rparr>"

section \<open>Electron identification\<close>

text \<open>
  A \<^verbatim>\<open>pat::Electron\<close>, with the members the three identification predicates and the
  ntuple read. \<open>hasMatchedConversion\<close> is the value of
  \<^verbatim>\<open>ConversionTools::hasMatchedConversion\<close> on the electron, for the conversion collection
  and the beam spot of the event (not code of this repository).
\<close>

record electron =
  el_pt :: real
  el_eta :: real
  el_phi :: real
  el_charge :: int
  superCluster_eta :: real
  full5x5_sigmaIetaIeta :: real
  deltaEtaSuperClusterTrackAtVtx :: real
  deltaPhiSuperClusterTrackAtVtx :: real
  hcalOverEcal :: real
  sumChargedHadronPt :: real
  ecalEnergy :: dbl
  eSuperClusterOverP :: dbl
  hasMatchedConversion :: bool
  el_puppiNoLeptonsChargedHadronIso :: real
  el_puppiNoLeptonsNeutralHadronIso :: real
  el_puppiNoLeptonsPhotonIso :: real

text \<open>
  The local variable \<^verbatim>\<open>Ooemoop\<close>. The three predicates compute it by the same lines:

  \<^verbatim>\<open>
  double Ooemoop = 999.;
  if (patEl.ecalEnergy() == 0) Ooemoop = 0.;
  else if (!std::isfinite(patEl.ecalEnergy())) Ooemoop = 998.;
  else Ooemoop = fabs(1./patEl.ecalEnergy() - patEl.eSuperClusterOverP()/patEl.ecalEnergy());
  \<close>
\<close>

definition Ooemoop :: "electron \<Rightarrow> dbl" where
  "Ooemoop patEl =
     (if deq (ecalEnergy patEl) (Fin 0) then Fin 0
      else if \<not> isfinite (ecalEnergy patEl) then Fin 998
      else fabs (dsub (ddiv (Fin 1) (ecalEnergy patEl))
                      (ddiv (eSuperClusterOverP patEl) (ecalEnergy patEl))))"

definition isLooseElec :: "electron \<Rightarrow> bool" where
  "isLooseElec patEl =
     (if 1.479 < \<bar>superCluster_eta patEl\<bar> \<and> \<bar>superCluster_eta patEl\<bar> < 1.556 then False
      else if 0.02992 < full5x5_sigmaIetaIeta patEl then False
      else if 0.004119 < \<bar>deltaEtaSuperClusterTrackAtVtx patEl\<bar> then False
      else if 0.05176 < \<bar>deltaPhiSuperClusterTrackAtVtx patEl\<bar> then False
      else if 6.741 < hcalOverEcal patEl then False
      else if dgt (ddiv (Fin (sumChargedHadronPt patEl)) (Fin (el_pt patEl))) (Fin 2.5)
        then False
      else if dgt (Ooemoop patEl) (Fin 73.76) then False
      else if hasMatchedConversion patEl then False
      else True)"

definition isMediumElec :: "electron \<Rightarrow> bool" where
  "isMediumElec patEl =
     (if 1.479 < \<bar>superCluster_eta patEl\<bar> \<and> \<bar>superCluster_eta patEl\<bar> < 1.556 then False
      else if 0.01609 < full5x5_sigmaIetaIeta patEl then False
      else if 0.001766 < \<bar>deltaEtaSuperClusterTrackAtVtx patEl\<bar> then False
      else if 0.03130 < \<bar>deltaPhiSuperClusterTrackAtVtx patEl\<bar> then False
      else if 7.371 < hcalOverEcal patEl then False
      else if dgt (ddiv (Fin (sumChargedHadronPt patEl)) (Fin (el_pt patEl))) (Fin 1.325)
        then False
      else if dgt (Ooemoop patEl) (Fin 22.6) then False
      else if hasMatchedConversion patEl then False
      else True)"

definition isTightElec :: "electron \<Rightarrow> bool" where
  "isTightElec patEl =
     (if 1.479 < \<bar>superCluster_eta patEl\<bar> \<and> \<bar>superCluster_eta patEl\<bar> < 1.556 then False
      else if 0.01614 < full5x5_sigmaIetaIeta patEl then False
      else if 0.001322 < \<bar>deltaEtaSuperClusterTrackAtVtx patEl\<bar> then False
      else if 0.06129 < \<bar>deltaPhiSuperClusterTrackAtVtx patEl\<bar> then False
      else if 4.492 < hcalOverEcal patEl then False
      else if dgt (ddiv (Fin (sumChargedHadronPt patEl)) (Fin (el_pt patEl))) (Fin 1.255)
        then False
      else if dgt (Ooemoop patEl) (Fin 18.26) then False
      else if hasMatchedConversion patEl then False
      else True)"

section \<open>The ntuple\<close>

text \<open>
  The input collections of \<^verbatim>\<open>MiniFromPat\<close>. A \<open>cand\<close> is a generator particle, a
  constituent of a generator jet or a particle-flow candidate. The jet identification
  functors \<^verbatim>\<open>jetIDLoose_\<close> and \<^verbatim>\<open>jetIDTight_\<close> are not code of this repository: their
  values on a jet are fields of the jet.
\<close>

record cand =
  pdgId :: int
  c_pt :: real
  c_eta :: real
  c_phi :: real

record genJet =
  gjet_pt :: real
  gjet_eta :: real
  gjet_phi :: real
  jetConstituents :: "cand list"

record jet =
  jet_pt :: real
  jet_eta :: real
  jet_phi :: real
  jetIDLoose :: bool
  jetIDTight :: bool

record met =
  met_pt_in :: real
  met_phi_in :: real

record event =
  isRealData :: bool
  vertices :: "vertex list"
  muons :: "muon list"
  elecs :: "electron list"
  jets :: "jet list"
  mets :: "met list"
  pfCands :: "cand list"
  genJets :: "genJet list"
  genParts :: "cand list"

text \<open>
  The angular distances \<^verbatim>\<open>ROOT::Math::VectorUtil::DeltaR\<close> (of two four-vectors) and
  \<^verbatim>\<open>reco::deltaR\<close> are library functions. They are parameters of the model, of the type
  below: a function of \<open>eta1\<close>, \<open>phi1\<close>, \<open>eta2\<close> and \<open>phi2\<close>.
\<close>

type_synonym angular_distance = "real \<Rightarrow> real \<Rightarrow> real \<Rightarrow> real \<Rightarrow> real"

text \<open>
  The record \<^verbatim>\<open>ev_\<close> (a \<^verbatim>\<open>MiniEvent_t\<close>, declared in a header that is not among the
  sources). A counter and the arrays it indexes are one list, the entries below the
  counter: \<^verbatim>\<open>ev_.nl = 0\<close> empties the list, and an assignment at the counter followed
  by its increment appends an entry. The capacity of the arrays is not modelled. Of an
  entry the model keeps the kinematics, the identification bits, the isolation and the
  index of the generator match. The array \<^verbatim>\<open>j_id\<close> is a function of the index, since
  the source writes it at the index \<^verbatim>\<open>ev_.nl\<close>.
\<close>

record genLepton =
  gl_pid :: int
  gl_pt :: real
  gl_phi :: real
  gl_eta :: real
  gl_relIso :: real

record genJetEntry =
  gj_pt :: real
  gj_phi :: real
  gj_eta :: real

record recoLepton =
  l_id :: nat
  l_pid :: int
  l_pt :: real
  l_phi :: real
  l_eta :: real
  l_relIso :: real
  l_g :: int

record recoJet =
  j_pt :: real
  j_phi :: real
  j_eta :: real
  j_g :: int

record pfLepton =
  pf_pid :: int
  pf_pt :: real
  pf_eta :: real
  pf_phi :: real
  pf_relIso :: real

record MiniEvent =
  gj :: "genJetEntry list"
  gl :: "genLepton list"
  l :: "recoLepton list"
  j :: "recoJet list"
  j_id :: "nat \<Rightarrow> nat"
  met :: "(real \<times> real) list"
  pf :: "pfLepton list"

subsection \<open>Generator level\<close>

text \<open>
  The inner loop of the generator jet loop: does a generator electron or muon overlap
  with the jet?
\<close>

fun genJet_overlaps :: "angular_distance \<Rightarrow> genJet \<Rightarrow> cand list \<Rightarrow> bool" where
  "genJet_overlaps DeltaR jt [] = False"
| "genJet_overlaps DeltaR jt (part # parts) =
     (if \<bar>pdgId part\<bar> \<noteq> 11 \<and> \<bar>pdgId part\<bar> \<noteq> 13 then genJet_overlaps DeltaR jt parts
      else if \<bar>gjet_pt jt - c_pt part\<bar> < 0.01 * c_pt part
              \<and> DeltaR (c_eta part) (c_phi part) (gjet_eta jt) (gjet_phi jt) < 0.01
        then True
      else genJet_overlaps DeltaR jt parts)"

text \<open>
  The generator jet loop. \<open>jGenJets\<close> collects the selected jets (the source collects
  their indices and reads the jets back by index).
\<close>

fun genJets_loop ::
  "angular_distance \<Rightarrow> cand list \<Rightarrow> genJet list \<Rightarrow> genJet list \<times> genJetEntry list
   \<Rightarrow> genJet list \<times> genJetEntry list" where
  "genJets_loop DeltaR parts [] acc = acc"
| "genJets_loop DeltaR parts (jt # jts) (jGenJets, entries) =
     (if gjet_pt jt < 20 then genJets_loop DeltaR parts jts (jGenJets, entries)
      else if 5 < \<bar>gjet_eta jt\<bar> then genJets_loop DeltaR parts jts (jGenJets, entries)
      else if genJet_overlaps DeltaR jt parts
        then genJets_loop DeltaR parts jts (jGenJets, entries)
      else genJets_loop DeltaR parts jts
             (jGenJets @ [jt],
              entries @ [\<lparr>gj_pt = gjet_pt jt, gj_phi = gjet_phi jt, gj_eta = gjet_eta jt\<rparr>]))"

text \<open>The isolation sum of a generator lepton: the loop over the constituents of a jet.\<close>

fun genIso_constituents :: "angular_distance \<Rightarrow> cand \<Rightarrow> cand list \<Rightarrow> real \<Rightarrow> real" where
  "genIso_constituents DeltaR part [] genIso = genIso"
| "genIso_constituents DeltaR part (c # jconst) genIso =
     (let deltaR = DeltaR (c_eta part) (c_phi part) (c_eta c) (c_phi c)
      in if deltaR < 0.01 then genIso_constituents DeltaR part jconst genIso
         else if \<bar>pdgId part\<bar> = 13 \<and> 0.4 < deltaR
           then genIso_constituents DeltaR part jconst genIso
         else if \<bar>pdgId part\<bar> = 11 \<and> 0.3 < deltaR
           then genIso_constituents DeltaR part jconst genIso
         else genIso_constituents DeltaR part jconst (genIso + c_pt c))"

text \<open>The loop over the selected generator jets.\<close>

fun genIso_jets :: "angular_distance \<Rightarrow> cand \<Rightarrow> genJet list \<Rightarrow> real \<Rightarrow> real" where
  "genIso_jets DeltaR part [] genIso = genIso"
| "genIso_jets DeltaR part (jt # jGenJets) genIso =
     (if 0.7 < DeltaR (c_eta part) (c_phi part) (gjet_eta jt) (gjet_phi jt)
      then genIso_jets DeltaR part jGenJets genIso
      else genIso_jets DeltaR part jGenJets
             (genIso_constituents DeltaR part (jetConstituents jt) genIso))"

definition genIso_of :: "angular_distance \<Rightarrow> cand \<Rightarrow> genJet list \<Rightarrow> real" where
  "genIso_of DeltaR part jGenJets = genIso_jets DeltaR part jGenJets 0 / c_pt part"

fun genLeptons_loop ::
  "angular_distance \<Rightarrow> genJet list \<Rightarrow> cand list \<Rightarrow> genLepton list \<Rightarrow> genLepton list" where
  "genLeptons_loop DeltaR jGenJets [] entries = entries"
| "genLeptons_loop DeltaR jGenJets (part # parts) entries =
     (if \<bar>pdgId part\<bar> \<noteq> 11 \<and> \<bar>pdgId part\<bar> \<noteq> 13
        then genLeptons_loop DeltaR jGenJets parts entries
      else if c_pt part < 10 then genLeptons_loop DeltaR jGenJets parts entries
      else if 3 < \<bar>c_eta part\<bar> then genLeptons_loop DeltaR jGenJets parts entries
      else genLeptons_loop DeltaR jGenJets parts
             (entries @ [\<lparr>gl_pid = pdgId part, gl_pt = c_pt part, gl_phi = c_phi part,
                          gl_eta = c_eta part,
                          gl_relIso = genIso_of DeltaR part jGenJets\<rparr>]))"

definition genAnalysis :: "angular_distance \<Rightarrow> event \<Rightarrow> MiniEvent \<Rightarrow> MiniEvent" where
  "genAnalysis DeltaR iEvent ev =
     (let (jGenJets, entries) = genJets_loop DeltaR (genParts iEvent) (genJets iEvent) ([], [])
      in ev\<lparr>gj := entries,
             gl := genLeptons_loop DeltaR jGenJets (genParts iEvent) []\<rparr>)"

subsection \<open>Reconstruction level\<close>

text \<open>
  The generator association of a reconstructed lepton: the loop over the generator
  leptons of the record, which assigns \<^verbatim>\<open>l_g\<close> at every hit and goes on.
\<close>

fun lepton_match ::
  "angular_distance \<Rightarrow> genLepton list \<Rightarrow> int \<Rightarrow> int \<Rightarrow> real \<Rightarrow> real \<Rightarrow> int \<Rightarrow> int" where
  "lepton_match deltaR [] ig pid eta phi g = g"
| "lepton_match deltaR (gen # gens) ig pid eta phi g =
     (if \<bar>gl_pid gen\<bar> \<noteq> \<bar>pid\<bar> then lepton_match deltaR gens (ig + 1) pid eta phi g
      else if 0.4 < deltaR (gl_eta gen) (gl_phi gen) eta phi
        then lepton_match deltaR gens (ig + 1) pid eta phi g
      else lepton_match deltaR gens (ig + 1) pid eta phi ig)"

text \<open>
  The generator association of a reconstructed jet: the loop over the generator jets
  of the record, which leaves at the first hit (\<^verbatim>\<open>break\<close>).
\<close>

fun jet_match :: "angular_distance \<Rightarrow> genJetEntry list \<Rightarrow> int \<Rightarrow> real \<Rightarrow> real \<Rightarrow> int \<Rightarrow> int" where
  "jet_match deltaR [] ig eta phi g = g"
| "jet_match deltaR (gen # gens) ig eta phi g =
     (if 0.4 < deltaR (gj_eta gen) (gj_phi gen) eta phi
      then jet_match deltaR gens (ig + 1) eta phi g
      else ig)"

text \<open>\<^verbatim>\<open>(isTight | (isMedium<<1) | (isLoose<<2))\<close>\<close>

definition id_bits :: "bool \<Rightarrow> bool \<Rightarrow> bool \<Rightarrow> nat" where
  "id_bits isTight isMedium isLoose =
     (if isTight then 1 else 0) + (if isMedium then 2 else 0) + (if isLoose then 4 else 0)"

text \<open>The muon loop.\<close>

fun reco_muons_loop ::
  "angular_distance \<Rightarrow> vertex list \<Rightarrow> int \<Rightarrow> genLepton list \<Rightarrow> muon list \<Rightarrow> recoLepton list
   \<Rightarrow> error + recoLepton list" where
  "reco_muons_loop deltaR vs prVtx gens [] entries = Inr entries"
| "reco_muons_loop deltaR vs prVtx gens (mu # mus) entries =
     (if mu_pt mu < 10 then reco_muons_loop deltaR vs prVtx gens mus entries
      else if 3 < \<bar>mu_eta mu\<bar> then reco_muons_loop deltaR vs prVtx gens mus entries
      else
       (let isLoose = ((\<bar>mu_eta mu\<bar> < 2.4 \<and> isLooseMuon mu)
                       \<or> (2.4 < \<bar>mu_eta mu\<bar>
                          \<and> isME0MuonSel mu (Fin 3) (Fin 4) (Fin 3) (Fin 4) (Fin 0.5)));
            isMedium = ((\<bar>mu_eta mu\<bar> < 2.4 \<and> isMediumMuon mu)
                        \<or> (2.4 < \<bar>mu_eta mu\<bar>
                           \<and> isME0MuonSel mu (Fin 3) (Fin 4) (Fin 3) (Fin 4) (Fin 0.3)))
        in
        case (if \<bar>mu_eta mu\<bar> < 2.4 \<and> 0 < length vs
              then (case vertices_at vs prVtx of
                      Inl e \<Rightarrow> Inl e
                    | Inr v \<Rightarrow> Inr (isTightMuon mu v))
              else Inr False) of
          Inl e \<Rightarrow> Inl e
        | Inr stdTight \<Rightarrow>
       (let isTight = (stdTight
                       \<or> (2.4 < \<bar>mu_eta mu\<bar>
                          \<and> isME0MuonSel mu (Fin 3) (Fin 4) (Fin 3) (Fin 4) (Fin 0.1)));
            pid = mu_charge mu * 13
        in reco_muons_loop deltaR vs prVtx gens mus
             (entries @
              [\<lparr>l_id = id_bits isTight isMedium isLoose, l_pid = pid, l_pt = mu_pt mu,
                l_phi = mu_phi mu, l_eta = mu_eta mu,
                l_relIso = (puppiNoLeptonsChargedHadronIso mu
                            + puppiNoLeptonsNeutralHadronIso mu
                            + puppiNoLeptonsPhotonIso mu) / mu_pt mu,
                l_g = lepton_match deltaR gens 0 pid (mu_eta mu) (mu_phi mu) (- 1)\<rparr>]))))"

text \<open>The electron loop.\<close>

fun reco_elecs_loop ::
  "angular_distance \<Rightarrow> genLepton list \<Rightarrow> electron list \<Rightarrow> recoLepton list \<Rightarrow> recoLepton list"
  where
  "reco_elecs_loop deltaR gens [] entries = entries"
| "reco_elecs_loop deltaR gens (el # els) entries =
     (if el_pt el < 10 then reco_elecs_loop deltaR gens els entries
      else if 3 < \<bar>el_eta el\<bar> then reco_elecs_loop deltaR gens els entries
      else
       (let isLoose = isLooseElec el;
            isMedium = isMediumElec el;
            isTight = isTightElec el;
            pid = el_charge el * 11
        in reco_elecs_loop deltaR gens els
             (entries @
              [\<lparr>l_id = id_bits isTight isMedium isLoose, l_pid = pid, l_pt = el_pt el,
                l_phi = el_phi el, l_eta = el_eta el,
                l_relIso = (el_puppiNoLeptonsChargedHadronIso el
                            + el_puppiNoLeptonsNeutralHadronIso el
                            + el_puppiNoLeptonsPhotonIso el) / el_pt el,
                l_g = lepton_match deltaR gens 0 pid (el_eta el) (el_phi el) (- 1)\<rparr>])))"

text \<open>The two overlap loops of the jet loop.\<close>

fun jet_overlaps_elecs :: "angular_distance \<Rightarrow> jet \<Rightarrow> electron list \<Rightarrow> bool" where
  "jet_overlaps_elecs DeltaR jt [] = False"
| "jet_overlaps_elecs DeltaR jt (el # els) =
     (if \<bar>jet_pt jt - el_pt el\<bar> < 0.01 * el_pt el
         \<and> DeltaR (el_eta el) (el_phi el) (jet_eta jt) (jet_phi jt) < 0.01
      then True
      else jet_overlaps_elecs DeltaR jt els)"

fun jet_overlaps_muons :: "angular_distance \<Rightarrow> jet \<Rightarrow> muon list \<Rightarrow> bool" where
  "jet_overlaps_muons DeltaR jt [] = False"
| "jet_overlaps_muons DeltaR jt (mu # mus) =
     (if \<bar>jet_pt jt - mu_pt mu\<bar> < 0.01 * mu_pt mu
         \<and> DeltaR (mu_eta mu) (mu_phi mu) (jet_eta jt) (jet_phi jt) < 0.01
      then True
      else jet_overlaps_muons DeltaR jt mus)"

text \<open>
  The jet loop. \<open>nl\<close> is the value of \<^verbatim>\<open>ev_.nl\<close>, the number of reconstructed leptons,
  at which the source writes \<^verbatim>\<open>ev_.j_id\<close>.
\<close>

fun reco_jets_loop ::
  "angular_distance \<Rightarrow> angular_distance \<Rightarrow> electron list \<Rightarrow> muon list \<Rightarrow> genJetEntry list
   \<Rightarrow> nat \<Rightarrow> jet list \<Rightarrow> recoJet list \<times> (nat \<Rightarrow> nat) \<Rightarrow> recoJet list \<times> (nat \<Rightarrow> nat)" where
  "reco_jets_loop DeltaR deltaR els mus gens nl [] acc = acc"
| "reco_jets_loop DeltaR deltaR els mus gens nl (jt # jts) (entries, ids) =
     (if jet_pt jt < 20 then reco_jets_loop DeltaR deltaR els mus gens nl jts (entries, ids)
      else if 5 < \<bar>jet_eta jt\<bar>
        then reco_jets_loop DeltaR deltaR els mus gens nl jts (entries, ids)
      else if jet_overlaps_elecs DeltaR jt els
        then reco_jets_loop DeltaR deltaR els mus gens nl jts (entries, ids)
      else if jet_overlaps_muons DeltaR jt mus
        then reco_jets_loop DeltaR deltaR els mus gens nl jts (entries, ids)
      else reco_jets_loop DeltaR deltaR els mus gens nl jts
             (entries @
              [\<lparr>j_pt = jet_pt jt, j_phi = jet_phi jt, j_eta = jet_eta jt,
                j_g = jet_match deltaR gens 0 (jet_eta jt) (jet_phi jt) (- 1)\<rparr>],
              ids(nl := (if jetIDTight jt then 1 else 0) + (if jetIDLoose jt then 2 else 0))))"

text \<open>The isolation sum of a particle-flow lepton: the loop over all candidates.\<close>

fun isoPF_loop :: "angular_distance \<Rightarrow> cand \<Rightarrow> cand list \<Rightarrow> real \<Rightarrow> real" where
  "isoPF_loop DeltaR ci [] isoPF = isoPF"
| "isoPF_loop DeltaR ci (ck # cands) isoPF =
     (if (if \<bar>pdgId ci\<bar> = 11 then 0.4 else 0.3)
           < DeltaR (c_eta ci) (c_phi ci) (c_eta ck) (c_phi ck)
      then isoPF_loop DeltaR ci cands isoPF
      else isoPF_loop DeltaR ci cands (isoPF + c_pt ck))"

definition isoPF_of :: "angular_distance \<Rightarrow> cand \<Rightarrow> cand list \<Rightarrow> real" where
  "isoPF_of DeltaR ci cands = isoPF_loop DeltaR ci cands 0 / c_pt ci"

fun pf_loop :: "angular_distance \<Rightarrow> cand list \<Rightarrow> cand list \<Rightarrow> pfLepton list \<Rightarrow> pfLepton list"
  where
  "pf_loop DeltaR cands [] entries = entries"
| "pf_loop DeltaR cands (ci # rest) entries =
     (if \<bar>pdgId ci\<bar> \<noteq> 11 \<and> \<bar>pdgId ci\<bar> \<noteq> 13 then pf_loop DeltaR cands rest entries
      else if c_pt ci < 10 then pf_loop DeltaR cands rest entries
      else if 3 < \<bar>c_eta ci\<bar> then pf_loop DeltaR cands rest entries
      else pf_loop DeltaR cands rest
             (entries @ [\<lparr>pf_pid = pdgId ci, pf_pt = c_pt ci, pf_eta = c_eta ci,
                          pf_phi = c_phi ci, pf_relIso = isoPF_of DeltaR ci cands\<rparr>]))"

text \<open>
  \<^verbatim>\<open>MiniFromPat::recoAnalysis\<close>. It returns before it has written anything when there
  is no primary vertex: the record then keeps what it held.
\<close>

definition recoAnalysis ::
  "angular_distance \<Rightarrow> angular_distance \<Rightarrow> event \<Rightarrow> MiniEvent \<Rightarrow> error + MiniEvent" where
  "recoAnalysis DeltaR deltaR iEvent ev =
     (let prVtx = find_prVtx (vertices iEvent) in
      if prVtx < 0 then Inr ev
      else
       (case reco_muons_loop deltaR (vertices iEvent) prVtx (gl ev) (muons iEvent) [] of
          Inl e \<Rightarrow> Inl e
        | Inr mus \<Rightarrow>
         (let leptons = reco_elecs_loop deltaR (gl ev) (elecs iEvent) mus;
              (jts, ids) = reco_jets_loop DeltaR deltaR (elecs iEvent) (muons iEvent) (gj ev)
                             (length leptons) (jets iEvent) ([], j_id ev)
          in Inr (ev\<lparr>l := leptons, j := jts, j_id := ids,
                     met := (case mets iEvent of [] \<Rightarrow> []
                             | m # ms \<Rightarrow> [(met_pt_in m, met_phi_in m)]),
                     pf := pf_loop DeltaR (pfCands iEvent) (pfCands iEvent) []\<rparr>))))"

text \<open>
  \<^verbatim>\<open>MiniFromPat::analyze\<close>, up to the copy of the run, luminosity block and event
  numbers and the filling of the tree: the record that is filled.
\<close>

definition analyze ::
  "angular_distance \<Rightarrow> angular_distance \<Rightarrow> event \<Rightarrow> MiniEvent \<Rightarrow> error + MiniEvent" where
  "analyze DeltaR deltaR iEvent ev =
     recoAnalysis DeltaR deltaR iEvent
       (if \<not> isRealData iEvent then genAnalysis DeltaR iEvent ev else ev)"

section \<open>Iteration order of the ME0 matches\<close>

text \<open>
  The (chamber, segment) pairs that both ME0 selections visit, in the order in which they
  visit them: the segments of the \<^verbatim>\<open>me0Matches\<close> of every chamber whose detector is 5.
  The list is used to state properties; the selections do not compute it.
\<close>

definition me0_pairs :: "MuonChamberMatch list \<Rightarrow> (MuonChamberMatch \<times> MuonSegmentMatch) list" where
  "me0_pairs chambers =
     concat (map (\<lambda>c. if detector c = 5 then map (Pair c) (me0Matches c) else []) chambers)"

section \<open>The tier conditions of a muon\<close>

text \<open>
  The kinematic preselections of the two muon loops, and the forward (ME0) conditions
  of the three tiers in \<^verbatim>\<open>PatMuonFilter::produce\<close>: the angle/eta selection with the
  cuts of the tier returns true, and for the medium and tight tiers the muon has an
  inner track with a valid pixel hit and of high purity, and a transverse impact
  parameter below 0.2 (for the tight tier also a longitudinal one below 0.5) with
  respect to the primary vertex \<open>v\<close>. These predicates are used to state properties.
\<close>

definition filter_presel :: "muon \<Rightarrow> bool" where
  "filter_presel mu = (\<not> mu_pt mu < 2 \<and> \<not> 3 < \<bar>mu_eta mu\<bar>)"

definition ntuple_presel :: "muon \<Rightarrow> bool" where
  "ntuple_presel mu = (\<not> mu_pt mu < 10 \<and> \<not> 3 < \<bar>mu_eta mu\<bar>)"

definition me0_loose :: "ME0Geometry \<Rightarrow> muon \<Rightarrow> bool" where
  "me0_loose geom mu =
     (isME0MuonSelNew geom mu (Fin 0.077) (dPhiCut_loose (mu_p mu))
        (dPhiBendCut_loose (mu_p mu)) = Inr True)"

definition me0_medium :: "ME0Geometry \<Rightarrow> vertex \<Rightarrow> muon \<Rightarrow> bool" where
  "me0_medium geom v mu =
     (me0_loose geom mu
      \<and> (case innerTrack mu of
           None \<Rightarrow> False
         | Some t \<Rightarrow> \<bar>bestTrack_dxy mu v\<bar> < 0.2 \<and> 0 < numberOfValidPixelHits t
                      \<and> highPurity t))"

definition me0_tight :: "ME0Geometry \<Rightarrow> vertex \<Rightarrow> muon \<Rightarrow> bool" where
  "me0_tight geom v mu =
     (isME0MuonSelNew geom mu (Fin 0.048) (dPhiCut_tight (mu_p mu))
        (dPhiBendCut_tight (mu_p mu)) = Inr True
      \<and> (case innerTrack mu of
           None \<Rightarrow> False
         | Some t \<Rightarrow> \<bar>bestTrack_dxy mu v\<bar> < 0.2 \<and> \<bar>bestTrack_dz mu v\<bar> < 0.5
                      \<and> 0 < numberOfValidPixelHits t \<and> highPurity t))"

text \<open>The relative isolation of a muon, as both muon loops compute it.\<close>

definition muon_relIso :: "muon \<Rightarrow> real" where
  "muon_relIso mu =
     (puppiNoLeptonsChargedHadronIso mu + puppiNoLeptonsNeutralHadronIso mu
      + puppiNoLeptonsPhotonIso mu) / mu_pt mu"

text \<open>
  The identification bits that \<^verbatim>\<open>MiniFromPat::recoAnalysis\<close> stores for a muon, for
  the primary vertex \<open>v\<close>, and for an electron.
\<close>

definition ntuple_muon_id :: "vertex \<Rightarrow> muon \<Rightarrow> nat" where
  "ntuple_muon_id v mu =
     id_bits
       ((\<bar>mu_eta mu\<bar> < 2.4 \<and> isTightMuon mu v)
        \<or> (2.4 < \<bar>mu_eta mu\<bar> \<and> isME0MuonSel mu (Fin 3) (Fin 4) (Fin 3) (Fin 4) (Fin 0.1)))
       ((\<bar>mu_eta mu\<bar> < 2.4 \<and> isMediumMuon mu)
        \<or> (2.4 < \<bar>mu_eta mu\<bar> \<and> isME0MuonSel mu (Fin 3) (Fin 4) (Fin 3) (Fin 4) (Fin 0.3)))
       ((\<bar>mu_eta mu\<bar> < 2.4 \<and> isLooseMuon mu)
        \<or> (2.4 < \<bar>mu_eta mu\<bar> \<and> isME0MuonSel mu (Fin 3) (Fin 4) (Fin 3) (Fin 4) (Fin 0.5)))"

definition ntuple_elec_id :: "electron \<Rightarrow> nat" where
  "ntuple_elec_id el = id_bits (isTightElec el) (isMediumElec el) (isLooseElec el)"

section \<open>Entries of the record\<close>

text \<open>
  The entry that the muon loop of \<^verbatim>\<open>recoAnalysis\<close> stores for a muon (for the primary
  vertex \<open>v\<close> and the generator leptons \<open>gens\<close> of the record), the preselection of the
  electron loop and the entry it stores for an electron, the condition under which the
  jet loop stores a jet (it passes the kinematic cuts and no electron and no muon of the
  event overlaps with it) and the entry it stores, and the conditions under which a
  generator lepton or jet is a hit of the association loops: the same absolute particle
  code and an angular distance that is not above 0.4. They are used to state properties.
\<close>

definition muon_entry :: "angular_distance \<Rightarrow> vertex \<Rightarrow> genLepton list \<Rightarrow> muon \<Rightarrow> recoLepton" where
  "muon_entry deltaR v gens mu =
     \<lparr>l_id = ntuple_muon_id v mu, l_pid = mu_charge mu * 13, l_pt = mu_pt mu,
      l_phi = mu_phi mu, l_eta = mu_eta mu, l_relIso = muon_relIso mu,
      l_g = lepton_match deltaR gens 0 (mu_charge mu * 13) (mu_eta mu) (mu_phi mu) (- 1)\<rparr>"

definition elec_presel :: "electron \<Rightarrow> bool" where
  "elec_presel el = (\<not> el_pt el < 10 \<and> \<not> 3 < \<bar>el_eta el\<bar>)"

definition elec_entry :: "angular_distance \<Rightarrow> genLepton list \<Rightarrow> electron \<Rightarrow> recoLepton" where
  "elec_entry deltaR gens el =
     \<lparr>l_id = ntuple_elec_id el, l_pid = el_charge el * 11, l_pt = el_pt el,
      l_phi = el_phi el, l_eta = el_eta el,
      l_relIso = (el_puppiNoLeptonsChargedHadronIso el + el_puppiNoLeptonsNeutralHadronIso el
                  + el_puppiNoLeptonsPhotonIso el) / el_pt el,
      l_g = lepton_match deltaR gens 0 (el_charge el * 11) (el_eta el) (el_phi el) (- 1)\<rparr>"





section \<open>Example inputs\<close>

text \<open>A central muon that passes the three standard identifications.\<close>

definition ex_muon_central :: muon where
  "ex_muon_central =
     \<lparr>mu_pt = 20, mu_eta = 0, mu_phi = 0, mu_p = Fin 20, mu_charge = 1, isME0Muon = False,
      matches = [], isLooseMuon = True, isMediumMuon = True, isTightMuon = (\<lambda>v. True),
      innerTrack = None, bestTrack_dxy = (\<lambda>v. 0), bestTrack_dz = (\<lambda>v. 0),
      puppiNoLeptonsChargedHadronIso = 0, puppiNoLeptonsNeutralHadronIso = 0,
      puppiNoLeptonsPhotonIso = 0\<rparr>"

text \<open>A geometry that knows no chamber, and one that knows the chamber 1.\<close>

definition ex_geom_empty :: ME0Geometry where
  "ex_geom_empty = (\<lambda>i. None)"

definition ex_geom :: ME0Geometry where
  "ex_geom = (\<lambda>i. if i = 1
              then Some \<lparr>glb_eta = (\<lambda>x y. x), glb_dphi = (\<lambda>x1 y1 x2 y2. dsub y1 y2),
                         computeDeltaPhi = (\<lambda>x y dxdz dydz. Fin 0)\<rparr>
              else None)"

text \<open>
  A segment at the position of the track and one far from it, and a forward ME0 muon
  with one chamber that holds the two, the far one last.
\<close>

definition ex_segment_near :: MuonSegmentMatch where
  "ex_segment_near =
     \<lparr>seg_x = Fin 0, seg_y = Fin 0, seg_xErr = Fin (1/2), seg_yErr = Fin (1/2),
      seg_dXdZ = Fin 0\<rparr>"

definition ex_segment_far :: MuonSegmentMatch where
  "ex_segment_far =
     \<lparr>seg_x = Fin 100, seg_y = Fin 100, seg_xErr = Fin (1/2), seg_yErr = Fin (1/2),
      seg_dXdZ = Fin 0\<rparr>"

definition ex_chamber :: MuonChamberMatch where
  "ex_chamber =
     \<lparr>detector = 5, ch_id = 1, ch_x = Fin 0, ch_y = Fin 0, ch_xErr = Fin (1/2),
      ch_yErr = Fin (1/2), ch_dXdZ = Fin 0, ch_dYdZ = Fin 0,
      me0Matches = [ex_segment_near, ex_segment_far]\<rparr>"

definition ex_muon_forward :: muon where
  "ex_muon_forward =
     ex_muon_central\<lparr>mu_eta := 2.6, isME0Muon := True, matches := [ex_chamber],
                     isLooseMuon := False, isMediumMuon := False,
                     isTightMuon := (\<lambda>v. False)\<rparr>"

text \<open>
  A chamber and a segment whose position uncertainties are zero in x (5 apart) and
  negative in y.
\<close>

definition ex_segment_zero_err :: MuonSegmentMatch where
  "ex_segment_zero_err =
     \<lparr>seg_x = Fin 0, seg_y = Fin 0, seg_xErr = Fin 0, seg_yErr = Fin 0, seg_dXdZ = Fin 0\<rparr>"

definition ex_chamber_zero_err :: MuonChamberMatch where
  "ex_chamber_zero_err =
     \<lparr>detector = 5, ch_id = 1, ch_x = Fin 5, ch_y = Fin 0, ch_xErr = Fin 0,
      ch_yErr = Fin (- 1), ch_dXdZ = Fin 0, ch_dYdZ = Fin 0,
      me0Matches = [ex_segment_zero_err]\<rparr>"

text \<open>
  A chamber and a segment whose x uncertainties are both the negative zero, with x
  positions 5 apart, and the forward ME0 muon that has this one match.
\<close>

definition ex_segment_negzero :: MuonSegmentMatch where
  "ex_segment_negzero =
     \<lparr>seg_x = Fin 0, seg_y = Fin 0, seg_xErr = NZero, seg_yErr = Fin (1/2),
      seg_dXdZ = Fin 0\<rparr>"

definition ex_chamber_negzero :: MuonChamberMatch where
  "ex_chamber_negzero =
     \<lparr>detector = 5, ch_id = 1, ch_x = Fin 5, ch_y = Fin 0, ch_xErr = NZero,
      ch_yErr = Fin (1/2), ch_dXdZ = Fin 0, ch_dYdZ = Fin 0,
      me0Matches = [ex_segment_negzero]\<rparr>"

definition ex_muon_negzero :: muon where
  "ex_muon_negzero = ex_muon_forward\<lparr>matches := [ex_chamber_negzero]\<rparr>"

text \<open>
  An angular distance: that of two directions whose azimuths are less than \<open>pi\<close> apart.
\<close>

definition ex_deltaR :: angular_distance where
  "ex_deltaR eta1 phi1 eta2 phi2 = sqrt ((eta1 - eta2)\<^sup>2 + (phi1 - phi2)\<^sup>2)"

text \<open>A valid vertex, and an empty record.\<close>

definition ex_vertex :: vertex where
  "ex_vertex = \<lparr>isFake = False, ndof = Fin 10\<rparr>"

text \<open>A vertex that is not fake and whose number of degrees of freedom is NaN.\<close>

definition ex_vertex_nan :: vertex where
  "ex_vertex_nan = \<lparr>isFake = False, ndof = NaN\<rparr>"

definition ex_record :: MiniEvent where
  "ex_record = \<lparr>gj = [], gl = [], l = [], j = [], j_id = (\<lambda>i. 0), met = [], pf = []\<rparr>"

text \<open>
  A muon in the forward region (\<open>|eta| = 2.6\<close>) that passes the three standard
  identifications and is not an ME0 muon.
\<close>

definition ex_muon_std_forward :: muon where
  "ex_muon_std_forward = ex_muon_central\<lparr>mu_eta := 2.6\<rparr>"

text \<open>An event with a valid vertex and given muons, and nothing else.\<close>

definition ex_event :: "muon list \<Rightarrow> event" where
  "ex_event mus =
     \<lparr>isRealData = False, vertices = [ex_vertex], muons = mus, elecs = [], jets = [],
      mets = [], pfCands = [], genJets = [], genParts = []\<rparr>"

text \<open>
  An electron that passes the three identifications, and three variations of it: in the
  shower width, in the track-cluster angle and in the hadronic over electromagnetic
  energy.
\<close>

definition ex_electron :: electron where
  "ex_electron =
     \<lparr>el_pt = 20, el_eta = 0, el_phi = 0, el_charge = - 1, superCluster_eta = 0,
      full5x5_sigmaIetaIeta = 0.01, deltaEtaSuperClusterTrackAtVtx = 0.001,
      deltaPhiSuperClusterTrackAtVtx = 0.01, hcalOverEcal = 1, sumChargedHadronPt = 2,
      ecalEnergy = Fin 50, eSuperClusterOverP = Fin 2, hasMatchedConversion = False,
      el_puppiNoLeptonsChargedHadronIso = 0, el_puppiNoLeptonsNeutralHadronIso = 0,
      el_puppiNoLeptonsPhotonIso = 0\<rparr>"

definition ex_electron_sieie :: electron where
  "ex_electron_sieie = ex_electron\<lparr>full5x5_sigmaIetaIeta := 0.01612\<rparr>"

definition ex_electron_dphi :: electron where
  "ex_electron_dphi = ex_electron\<lparr>deltaPhiSuperClusterTrackAtVtx := 0.06\<rparr>"

definition ex_electron_hoe :: electron where
  "ex_electron_hoe = ex_electron\<lparr>hcalOverEcal := 7\<rparr>"

text \<open>
  Particle-flow candidates: a muon and an electron at the same place, and a charged
  hadron at the angular distance 0.35 from them.
\<close>

definition ex_pf_muon :: cand where
  "ex_pf_muon = \<lparr>pdgId = 13, c_pt = 20, c_eta = 0, c_phi = 0\<rparr>"

definition ex_pf_electron :: cand where
  "ex_pf_electron = \<lparr>pdgId = 11, c_pt = 20, c_eta = 0, c_phi = 0\<rparr>"

definition ex_pf_hadron :: cand where
  "ex_pf_hadron = \<lparr>pdgId = 211, c_pt = 5, c_eta = 0.35, c_phi = 0\<rparr>"



section \<open>The primary vertex\<close>

text \<open>
  The loop skips a vertex whose \<open>ndof\<close> is at most 4. A vertex is not skipped when its
  \<open>ndof\<close> is above 4, and also when it is NaN.
\<close>

lemma not_dle_iff: "\<not> dle x (Fin c) \<longleftrightarrow> dgt x (Fin c) \<or> is_nan x"
  by (cases x) (auto simp: dgt_def)

lemma prVtx_loop_set:
  "0 \<le> p \<Longrightarrow> prVtx_loop vs i p = p"
  by (induction vs arbitrary: i) auto

lemma prVtx_loop_none:
  "\<forall>v \<in> set vs. isFake v \<or> dle (ndof v) (Fin 4) \<Longrightarrow> prVtx_loop vs i p = p"
  by (induction vs arbitrary: i) auto

lemma prVtx_loop_first:
  "p < 0 \<Longrightarrow> k < length vs \<Longrightarrow> \<not> isFake (vs ! k) \<Longrightarrow> \<not> dle (ndof (vs ! k)) (Fin 4) \<Longrightarrow>
   \<forall>j < k. isFake (vs ! j) \<or> dle (ndof (vs ! j)) (Fin 4) \<Longrightarrow>
   prVtx_loop vs i p = int (i + k)"
proof (induction vs arbitrary: i k)
  case Nil
  then show ?case by simp
next
  case (Cons v vs)
  show ?case
  proof (cases k)
    case 0
    with Cons.prems show ?thesis
      by (simp add: prVtx_loop_set)
  next
    case (Suc k')
    from Cons.prems(5) Suc have v: "isFake v \<or> dle (ndof v) (Fin 4)"
      by (metis nth_Cons_0 zero_less_Suc)
    have rest: "\<forall>j < k'. isFake (vs ! j) \<or> dle (ndof (vs ! j)) (Fin 4)"
    proof (intro allI impI)
      fix j assume "j < k'"
      then have "Suc j < k" using Suc by simp
      with Cons.prems(5)
      have "isFake ((v # vs) ! Suc j) \<or> dle (ndof ((v # vs) ! Suc j)) (Fin 4)"
        by blast
      then show "isFake (vs ! j) \<or> dle (ndof (vs ! j)) (Fin 4)" by simp
    qed
    from Cons.prems Suc have "prVtx_loop vs (Suc i) p = int (Suc i + k')"
      by (intro Cons.IH rest) auto
    with v Suc show ?thesis by auto
  qed
qed

text \<open>
  The index that the loop selects, for a test \<open>ok\<close> that holds of a vertex exactly when
  the loop does not skip it.
\<close>

lemma find_prVtx_least:
  assumes ok: "\<And>v. v \<in> set vs \<Longrightarrow> ok v \<longleftrightarrow> \<not> isFake v \<and> \<not> dle (ndof v) (Fin 4)"
  shows "find_prVtx vs =
           (if \<exists>i. i < length vs \<and> ok (vs ! i)
            then int (LEAST i. i < length vs \<and> ok (vs ! i))
            else - 1)"
proof (cases "\<exists>i. i < length vs \<and> ok (vs ! i)")
  case False
  then have "\<forall>v \<in> set vs. \<not> ok v"
    by (metis in_set_conv_nth)
  then have "\<forall>v \<in> set vs. isFake v \<or> dle (ndof v) (Fin 4)"
    using ok by blast
  then have "find_prVtx vs = - 1"
    unfolding find_prVtx_def by (rule prVtx_loop_none)
  with False show ?thesis by simp
next
  case True
  define P where "P i \<longleftrightarrow> i < length vs \<and> ok (vs ! i)" for i
  from True have ex: "\<exists>i. P i" by (simp add: P_def)
  define k where "k = (LEAST i. P i)"
  have Pk: "P k" unfolding k_def using ex by (metis LeastI)
  have least: "\<forall>j < k. \<not> P j" unfolding k_def using not_less_Least by blast
  have kl: "k < length vs" using Pk by (simp add: P_def)
  have okk: "\<not> isFake (vs ! k) \<and> \<not> dle (ndof (vs ! k)) (Fin 4)"
    using Pk ok[of "vs ! k"] kl by (simp add: P_def)
  have below: "\<forall>j < k. isFake (vs ! j) \<or> dle (ndof (vs ! j)) (Fin 4)"
  proof (intro allI impI)
    fix j assume jk: "j < k"
    then have "\<not> P j" using least by blast
    moreover have jl: "j < length vs" using jk kl by simp
    ultimately have "\<not> ok (vs ! j)" by (simp add: P_def)
    then show "isFake (vs ! j) \<or> dle (ndof (vs ! j)) (Fin 4)"
      using ok[of "vs ! j"] jl by auto
  qed
  have "prVtx_loop vs 0 (- 1) = int (0 + k)"
    using kl okk below by (intro prVtx_loop_first) auto
  then have "find_prVtx vs = int k" by (simp add: find_prVtx_def)
  with True show ?thesis by (simp add: k_def P_def)
qed

text \<open>
  Two vertices that are not fake, the first with a NaN \<open>ndof\<close> and the second with
  \<open>ndof = 10\<close>: the loop selects the index 0, where \<open>ndof > 4\<close> does not hold, and the
  smallest index of a vertex that is not fake and has \<open>ndof > 4\<close> is 1. For the first
  vertex alone the loop selects 0 as well, and no vertex has \<open>ndof > 4\<close>.
\<close>

theorem find_prVtx_nan_counterexample:
  "find_prVtx [ex_vertex_nan, ex_vertex] = 0
   \<and> \<not> isFake ex_vertex_nan \<and> \<not> dgt (ndof ex_vertex_nan) (Fin 4)
   \<and> \<not> isFake ex_vertex \<and> dgt (ndof ex_vertex) (Fin 4)
   \<and> find_prVtx [ex_vertex_nan] = 0"
  by (simp add: find_prVtx_def ex_vertex_nan_def ex_vertex_def dgt_def)

text \<open>
  Claim C6, amended. For every vertex list, the selected primary-vertex index is the
  smallest \<open>i\<close> such that vertex \<open>i\<close> is not fake and its \<open>ndof\<close> is not at most 4, that
  is, \<open>ndof > 4\<close> or \<open>ndof\<close> is NaN; it is the sentinel \<open>-1\<close> when there is no such
  vertex. When no vertex of the list has a NaN \<open>ndof\<close>, it is the smallest \<open>i\<close> such that
  vertex \<open>i\<close> is not fake and \<open>ndof > 4\<close>, and \<open>-1\<close> when there is no such vertex.
\<close>

theorem find_prVtx_first_valid:
  "find_prVtx vs =
     (if \<exists>i. i < length vs \<and> \<not> isFake (vs ! i)
              \<and> (dgt (ndof (vs ! i)) (Fin 4) \<or> is_nan (ndof (vs ! i)))
      then int (LEAST i. i < length vs \<and> \<not> isFake (vs ! i)
                         \<and> (dgt (ndof (vs ! i)) (Fin 4) \<or> is_nan (ndof (vs ! i))))
      else - 1)
   \<and> ((\<forall>v \<in> set vs. \<not> is_nan (ndof v)) \<longrightarrow>
        find_prVtx vs =
          (if \<exists>i. i < length vs \<and> \<not> isFake (vs ! i) \<and> dgt (ndof (vs ! i)) (Fin 4)
           then int (LEAST i. i < length vs \<and> \<not> isFake (vs ! i)
                              \<and> dgt (ndof (vs ! i)) (Fin 4))
           else - 1))"
proof (intro conjI impI)
  show "find_prVtx vs =
     (if \<exists>i. i < length vs \<and> \<not> isFake (vs ! i)
              \<and> (dgt (ndof (vs ! i)) (Fin 4) \<or> is_nan (ndof (vs ! i)))
      then int (LEAST i. i < length vs \<and> \<not> isFake (vs ! i)
                         \<and> (dgt (ndof (vs ! i)) (Fin 4) \<or> is_nan (ndof (vs ! i))))
      else - 1)"
    by (rule find_prVtx_least[where ok = "\<lambda>v. \<not> isFake v \<and> (dgt (ndof v) (Fin 4) \<or> is_nan (ndof v))"])
      (simp add: not_dle_iff)
next
  assume nonan: "\<forall>v \<in> set vs. \<not> is_nan (ndof v)"
  show "find_prVtx vs =
          (if \<exists>i. i < length vs \<and> \<not> isFake (vs ! i) \<and> dgt (ndof (vs ! i)) (Fin 4)
           then int (LEAST i. i < length vs \<and> \<not> isFake (vs ! i)
                              \<and> dgt (ndof (vs ! i)) (Fin 4))
           else - 1)"
    by (rule find_prVtx_least[where ok = "\<lambda>v. \<not> isFake v \<and> dgt (ndof v) (Fin 4)"])
      (use nonan in \<open>simp add: not_dle_iff\<close>)
qed

theorem find_prVtx_first_valid_witness:
  "find_prVtx [\<lparr>isFake = True, ndof = Fin 10\<rparr>, \<lparr>isFake = False, ndof = Fin 4\<rparr>,
               \<lparr>isFake = False, ndof = Fin 5\<rparr>, \<lparr>isFake = False, ndof = Fin 10\<rparr>] = 2
   \<and> find_prVtx [\<lparr>isFake = True, ndof = Fin 10\<rparr>, \<lparr>isFake = False, ndof = Fin 4\<rparr>] = - 1
   \<and> find_prVtx [\<lparr>isFake = False, ndof = Fin 4\<rparr>, ex_vertex_nan, ex_vertex] = 1"
proof -
  let ?vs = "[\<lparr>isFake = True, ndof = Fin 10\<rparr>, \<lparr>isFake = False, ndof = Fin 4\<rparr>,
              \<lparr>isFake = False, ndof = Fin 5\<rparr>, \<lparr>isFake = False, ndof = Fin 10\<rparr>]"
  let ?ws = "[\<lparr>isFake = True, ndof = Fin 10\<rparr>, \<lparr>isFake = False, ndof = Fin 4\<rparr>]"
  let ?us = "[\<lparr>isFake = False, ndof = Fin 4\<rparr>, ex_vertex_nan, ex_vertex]"
  have nonan: "\<forall>v \<in> set ?vs. \<not> is_nan (ndof v)" "\<forall>v \<in> set ?ws. \<not> is_nan (ndof v)"
    by simp_all
  have ex: "\<exists>i. i < length ?vs \<and> \<not> isFake (?vs ! i) \<and> dgt (ndof (?vs ! i)) (Fin 4)"
    by (intro exI[of _ 2]) (simp add: dgt_def)
  have least: "(LEAST i. i < length ?vs \<and> \<not> isFake (?vs ! i)
                  \<and> dgt (ndof (?vs ! i)) (Fin 4)) = 2"
  proof (rule Least_equality)
    show "2 < length ?vs \<and> \<not> isFake (?vs ! 2) \<and> dgt (ndof (?vs ! 2)) (Fin 4)"
      by (simp add: dgt_def)
  next
    fix y assume y: "y < length ?vs \<and> \<not> isFake (?vs ! y) \<and> dgt (ndof (?vs ! y)) (Fin 4)"
    show "2 \<le> y"
    proof (rule ccontr)
      assume "\<not> 2 \<le> y"
      then have "y = 0 \<or> y = 1" by auto
      with y show False by (auto simp: dgt_def)
    qed
  qed
  have none: "\<not> (\<exists>i. i < length ?ws \<and> \<not> isFake (?ws ! i) \<and> dgt (ndof (?ws ! i)) (Fin 4))"
  proof
    assume "\<exists>i. i < length ?ws \<and> \<not> isFake (?ws ! i) \<and> dgt (ndof (?ws ! i)) (Fin 4)"
    then obtain i where
      i: "i < length ?ws \<and> \<not> isFake (?ws ! i) \<and> dgt (ndof (?ws ! i)) (Fin 4)" by blast
    then have "i = 0 \<or> i = 1" by auto
    with i show False by (auto simp: dgt_def)
  qed
  have exu: "\<exists>i. i < length ?us \<and> \<not> isFake (?us ! i)
               \<and> (dgt (ndof (?us ! i)) (Fin 4) \<or> is_nan (ndof (?us ! i)))"
    by (intro exI[of _ 1]) (simp add: ex_vertex_nan_def)
  have leastu: "(LEAST i. i < length ?us \<and> \<not> isFake (?us ! i)
                   \<and> (dgt (ndof (?us ! i)) (Fin 4) \<or> is_nan (ndof (?us ! i)))) = 1"
  proof (rule Least_equality)
    show "1 < length ?us \<and> \<not> isFake (?us ! 1)
            \<and> (dgt (ndof (?us ! 1)) (Fin 4) \<or> is_nan (ndof (?us ! 1)))"
      by (simp add: ex_vertex_nan_def)
  next
    fix y assume y: "y < length ?us \<and> \<not> isFake (?us ! y)
            \<and> (dgt (ndof (?us ! y)) (Fin 4) \<or> is_nan (ndof (?us ! y)))"
    show "1 \<le> y"
    proof (rule ccontr)
      assume "\<not> 1 \<le> y"
      then have "y = 0" by auto
      with y show False by (auto simp: dgt_def)
    qed
  qed
  have a: "find_prVtx ?vs = 2"
    using find_prVtx_first_valid[of ?vs, THEN conjunct2, THEN mp, OF nonan(1)] ex least
    by simp
  have b: "find_prVtx ?ws = - 1"
    using find_prVtx_first_valid[of ?ws, THEN conjunct2, THEN mp, OF nonan(2)] none
    by simp
  have c: "find_prVtx ?us = 1"
    using find_prVtx_first_valid[of ?us, THEN conjunct1] exu leastu
    by simp
  from a b c show ?thesis by simp
qed

section \<open>Facts about the number model\<close>

lemma std_max_Fin: "std_max (Fin a) (Fin b) = Fin (max a b)"
  by (auto simp: std_max_def max_def)

lemma std_min_Fin: "std_min (Fin a) (Fin b) = Fin (min a b)"
  by (auto simp: std_min_def min_def)

lemma ddiv_Fin: "a \<noteq> 0 \<Longrightarrow> b \<noteq> 0 \<Longrightarrow> ddiv (Fin a) (Fin b) = Fin (a / b)"
  by (simp add: ddiv_def)

lemma dsqrt_nonpos:
  "is_zero s \<or> dlt s (Fin 0) \<Longrightarrow> dsqrt s = NaN \<or> dsqrt s = Fin 0 \<or> dsqrt s = NZero"
  by (cases s) auto

lemma dsqrt_NZero_iff: "dsqrt s = NZero \<longleftrightarrow> s = NZero"
  by (cases s) auto

lemma dadd_NZero_iff: "dadd a b = NZero \<longleftrightarrow> a = NZero \<and> b = NZero"
  by (cases a; cases b) auto

lemma ddiv_fabs_degenerate:
  assumes "d = NaN \<or> d = Fin 0 \<or> d = NZero"
  shows "\<not> isfinite (ddiv (fabs r) d)"
    and "ddiv (fabs r) d = NInf \<longleftrightarrow> d = NZero \<and> dlt (Fin 0) (fabs r)"
  using assms by (cases r; auto simp: ddiv_def signed_inf_def)+

lemma dlt_not_finite:
  "\<not> isfinite a \<Longrightarrow> isfinite thr \<Longrightarrow> dlt a thr \<longleftrightarrow> a = NInf"
  by (cases a; cases thr) auto

text \<open>
  A residual over the square root of a sum of uncertainties that is zero or negative:
  the quotient is NaN or an infinity, and it is below a finite cut exactly when it is
  the negative infinity, which takes two negative zeros and a residual above zero.
\<close>

lemma pull_degenerate:
  assumes "is_zero (dadd e1 e2) \<or> dlt (dadd e1 e2) (Fin 0)" and "isfinite thr"
  shows "\<not> isfinite (ddiv (fabs r) (dsqrt (dadd e1 e2)))
       \<and> (dlt (ddiv (fabs r) (dsqrt (dadd e1 e2))) thr
            \<longleftrightarrow> ddiv (fabs r) (dsqrt (dadd e1 e2)) = NInf)
       \<and> (ddiv (fabs r) (dsqrt (dadd e1 e2)) = NInf
            \<longleftrightarrow> e1 = NZero \<and> e2 = NZero \<and> dlt (Fin 0) (fabs r))"
proof -
  let ?d = "dsqrt (dadd e1 e2)"
  have d: "?d = NaN \<or> ?d = Fin 0 \<or> ?d = NZero"
    using assms(1) by (rule dsqrt_nonpos)
  have nf: "\<not> isfinite (ddiv (fabs r) ?d)"
    using d by (rule ddiv_fabs_degenerate(1))
  have ninf: "ddiv (fabs r) ?d = NInf \<longleftrightarrow> ?d = NZero \<and> dlt (Fin 0) (fabs r)"
    using d by (rule ddiv_fabs_degenerate(2))
  have lt: "dlt (ddiv (fabs r) ?d) thr \<longleftrightarrow> ddiv (fabs r) ?d = NInf"
    using nf assms(2) by (rule dlt_not_finite)
  show ?thesis
    using nf lt ninf by (simp add: dsqrt_NZero_iff dadd_NZero_iff)
qed

section \<open>The momentum dependent ME0 cuts\<close>

lemma clamp_fin:
  assumes "0 < p" "0 < k"
  shows "std_min (std_max (ddiv (Fin k) (Fin p)) (ddiv (Fin k) (Fin 100))) (Fin c)
         = Fin (min (max (k / p) (k / 100)) c)"
proof -
  have "ddiv (Fin k) (Fin p) = Fin (k / p)" using assms by (intro ddiv_Fin) auto
  moreover have "ddiv (Fin k) (Fin 100) = Fin (k / 100)" using assms by (intro ddiv_Fin) auto
  ultimately show ?thesis by (simp only: std_max_Fin std_min_Fin)
qed

lemma clamp_mono:
  fixes k :: real
  assumes "0 < p" "p \<le> q" "0 < k"
  shows "min (max (k / q) m) c \<le> min (max (k / p) m) c"
proof -
  have "k / q \<le> k / p" using assms by (simp add: frac_le)
  then have "max (k / q) m \<le> max (k / p) m" by (intro max.mono) simp_all
  then show ?thesis by (intro min.mono) simp_all
qed

lemma clamp_bounds:
  fixes m :: real
  assumes "m \<le> c"
  shows "m \<le> min (max a m) c \<and> min (max a m) c \<le> c"
  using assms by auto

text \<open>The three properties of one cut, for a coefficient \<open>k\<close> and a ceiling \<open>c\<close>.\<close>

lemma clamp_cut:
  fixes k :: real
  assumes "0 < p" "p \<le> q" "0 < k" "k / 100 \<le> c"
  defines "f \<equiv> \<lambda>mom. std_min (std_max (ddiv (Fin k) mom) (ddiv (Fin k) (Fin 100))) (Fin c)"
  shows "f (Fin p) = Fin (min (max (k / p) (k / 100)) c)
       \<and> \<not> dlt (f (Fin p)) (Fin (k / 100)) \<and> \<not> dlt (Fin c) (f (Fin p))
       \<and> \<not> dlt (f (Fin p)) (f (Fin q))"
proof -
  have q: "0 < q" using assms by simp
  have a: "f (Fin p) = Fin (min (max (k / p) (k / 100)) c)"
    unfolding f_def using assms(1,3) by (rule clamp_fin)
  have b: "f (Fin q) = Fin (min (max (k / q) (k / 100)) c)"
    unfolding f_def using q assms(3) by (rule clamp_fin)
  from clamp_bounds[OF assms(4), of "k / p"] clamp_mono[OF assms(1,2,3), of "k / 100" c]
  show ?thesis
    unfolding a b by (simp only: dlt.simps fin_val.simps not_less simp_thms)
qed

text \<open>
  Claim C7. For every momentum \<open>p > 0\<close>, the ME0 deltaPhi cut
  \<open>phiCut(p) = clamp(k1/p, k1/100, ceiling)\<close> does not increase with \<open>p\<close> and lies within
  \<open>[k1/100, ceiling]\<close>; for the loose tier (\<open>k1 = 1.2\<close>, ceiling \<open>0.056\<close>),
  \<open>phiCut(10) = 0.056\<close> and \<open>phiCut(1000) = 0.012\<close>; the deltaPhi-bend cut (\<open>k2 = 0.2\<close>,
  ceiling \<open>0.0096\<close>) and the tight-tier cuts (ceilings \<open>0.032\<close> and \<open>0.0041\<close>) have the
  same shape.
\<close>

theorem me0_cut_clamp:
  assumes "0 < p" and "p \<le> q"
  shows "(dPhiCut_loose (Fin p) = Fin (min (max (1.2 / p) (1.2 / 100)) 0.056)
          \<and> \<not> dlt (dPhiCut_loose (Fin p)) (Fin (1.2 / 100))
          \<and> \<not> dlt (Fin 0.056) (dPhiCut_loose (Fin p))
          \<and> \<not> dlt (dPhiCut_loose (Fin p)) (dPhiCut_loose (Fin q)))
       \<and> (dPhiBendCut_loose (Fin p) = Fin (min (max (0.2 / p) (0.2 / 100)) 0.0096)
          \<and> \<not> dlt (dPhiBendCut_loose (Fin p)) (Fin (0.2 / 100))
          \<and> \<not> dlt (Fin 0.0096) (dPhiBendCut_loose (Fin p))
          \<and> \<not> dlt (dPhiBendCut_loose (Fin p)) (dPhiBendCut_loose (Fin q)))
       \<and> (dPhiCut_tight (Fin p) = Fin (min (max (1.2 / p) (1.2 / 100)) 0.032)
          \<and> \<not> dlt (dPhiCut_tight (Fin p)) (Fin (1.2 / 100))
          \<and> \<not> dlt (Fin 0.032) (dPhiCut_tight (Fin p))
          \<and> \<not> dlt (dPhiCut_tight (Fin p)) (dPhiCut_tight (Fin q)))
       \<and> (dPhiBendCut_tight (Fin p) = Fin (min (max (0.2 / p) (0.2 / 100)) 0.0041)
          \<and> \<not> dlt (dPhiBendCut_tight (Fin p)) (Fin (0.2 / 100))
          \<and> \<not> dlt (Fin 0.0041) (dPhiBendCut_tight (Fin p))
          \<and> \<not> dlt (dPhiBendCut_tight (Fin p)) (dPhiBendCut_tight (Fin q)))
       \<and> dPhiCut_loose (Fin 10) = Fin 0.056
       \<and> dPhiCut_loose (Fin 1000) = Fin 0.012"
proof -
  have k1: "0 < (1.2::real)" and k2: "0 < (0.2::real)" by simp_all
  have c1: "(1.2::real) / 100 \<le> 0.056" and c2: "(0.2::real) / 100 \<le> 0.0096"
    and c3: "(1.2::real) / 100 \<le> 0.032" and c4: "(0.2::real) / 100 \<le> 0.0041"
    by simp_all
  note l1 = clamp_cut[OF assms k1 c1, folded dPhiCut_loose_def]
  note l2 = clamp_cut[OF assms k2 c2, folded dPhiBendCut_loose_def]
  note l3 = clamp_cut[OF assms k1 c3, folded dPhiCut_tight_def]
  note l4 = clamp_cut[OF assms k2 c4, folded dPhiBendCut_tight_def]
  have e1: "dPhiCut_loose (Fin 10) = Fin 0.056"
    by (simp add: dPhiCut_loose_def std_min_def std_max_def ddiv_def)
  have e2: "dPhiCut_loose (Fin 1000) = Fin 0.012"
    by (simp add: dPhiCut_loose_def std_min_def std_max_def ddiv_def)
  from l1 l2 l3 l4 e1 e2 show ?thesis by blast
qed

theorem me0_cut_clamp_witness:
  "dPhiCut_loose (Fin 10) = Fin 0.056
   \<and> dPhiCut_loose (Fin 1000) = Fin 0.012
   \<and> \<not> dlt (dPhiCut_loose (Fin 10)) (dPhiCut_loose (Fin 1000))
   \<and> \<not> dlt (dPhiCut_tight (Fin 10)) (Fin (1.2 / 100))
   \<and> \<not> dlt (Fin 0.0041) (dPhiBendCut_tight (Fin 10))"
proof -
  have h1: "(0::real) < 10" and h2: "(10::real) \<le> 1000" by simp_all
  from me0_cut_clamp[OF h1 h2] show ?thesis by blast
qed

section \<open>The two ME0 selections\<close>

lemma me0_pairs_Nil [simp]: "me0_pairs [] = []"
  by (simp add: me0_pairs_def)

lemma me0_pairs_Cons:
  "me0_pairs (c # cs) =
     (if detector c = 5 then map (Pair c) (me0Matches c) else []) @ me0_pairs cs"
  by (simp add: me0_pairs_def)

lemma sel_segments_last:
  "sel_segments c segs v =
     (if detector c = 5 \<and> segs \<noteq> [] then me0_pair_vars c (last segs) else v)"
  by (induction segs arbitrary: v) auto

lemma sel_chambers_last:
  "sel_chambers cs v =
     (if me0_pairs cs = [] then v
      else me0_pair_vars (fst (last (me0_pairs cs))) (snd (last (me0_pairs cs))))"
proof (induction cs arbitrary: v)
  case Nil
  then show ?case by simp
next
  case (Cons c cs)
  show ?case
    by (simp add: Cons.IH sel_segments_last me0_pairs_Cons last_map)
qed

lemma new_segments_result:
  "new_segments geom c segs e p b result = Inr r \<Longrightarrow>
   r = (result \<or> (\<exists>s \<in> set segs. \<exists>me0. geom (ch_id c) = Some me0
                     \<and> new_pair_passes me0 c s e p b))"
  by (induction segs arbitrary: result) (auto split: option.splits if_splits)

lemma new_chambers_result:
  "new_chambers geom cs e p b result = Inr r \<Longrightarrow>
   r = (result \<or> (\<exists>(c, s) \<in> set (me0_pairs cs).
                    \<exists>me0. geom (ch_id c) = Some me0 \<and> new_pair_passes me0 c s e p b))"
proof (induction cs arbitrary: result)
  case Nil
  then show ?case by simp
next
  case (Cons c cs)
  show ?case
  proof (cases "detector c = 5")
    case False
    with Cons show ?thesis by (simp add: me0_pairs_Cons)
  next
    case True
    with Cons.prems obtain r' where
      seg: "new_segments geom c (me0Matches c) e p b result = Inr r'" and
      rest: "new_chambers geom cs e p b r' = Inr r"
      by (auto split: sum.splits)
    have r': "r' = (result \<or> (\<exists>s \<in> set (me0Matches c).
                 \<exists>me0. geom (ch_id c) = Some me0 \<and> new_pair_passes me0 c s e p b))"
      by (rule new_segments_result[OF seg])
    have r: "r = (r' \<or> (\<exists>(c, s) \<in> set (me0_pairs cs).
                    \<exists>me0. geom (ch_id c) = Some me0 \<and> new_pair_passes me0 c s e p b))"
      by (rule Cons.IH[OF rest])
    have split: "set (me0_pairs (c # cs)) = Pair c ` set (me0Matches c) \<union> set (me0_pairs cs)"
      using True by (simp add: me0_pairs_Cons)
    show ?thesis
      unfolding split bex_Un r r' by auto
  qed
qed

lemma new_segments_returns:
  "segs = [] \<or> geom (ch_id c) \<noteq> None \<Longrightarrow>
   \<exists>r. new_segments geom c segs e p b result = Inr r"
  by (induction segs arbitrary: result) auto

lemma new_chambers_returns:
  "\<forall>(c, s) \<in> set (me0_pairs cs). geom (ch_id c) \<noteq> None \<Longrightarrow>
   \<exists>r. new_chambers geom cs e p b result = Inr r"
proof (induction cs arbitrary: result)
  case Nil
  then show ?case by simp
next
  case (Cons c cs)
  show ?case
  proof (cases "detector c = 5")
    case False
    with Cons show ?thesis by (simp add: me0_pairs_Cons)
  next
    case True
    with Cons.prems have "me0Matches c = [] \<or> geom (ch_id c) \<noteq> None"
      by (cases "me0Matches c") (auto simp: me0_pairs_Cons)
    from new_segments_returns[of "me0Matches c" geom c e p b result, OF this] obtain r' where
      seg: "new_segments geom c (me0Matches c) e p b result = Inr r'" by blast
    from Cons.prems have "\<forall>(c, s) \<in> set (me0_pairs cs). geom (ch_id c) \<noteq> None"
      by (auto simp: me0_pairs_Cons)
    from Cons.IH[OF this] obtain r where "new_chambers geom cs e p b r' = Inr r" by blast
    with seg True show ?thesis by simp
  qed
qed

text \<open>
  Claim C10. In the pull/distance variant \<open>isME0MuonSel\<close> the variables are overwritten
  at every ME0 (chamber, segment) pair and compared with the cuts after both loops: for
  an ME0 muon with at least one such pair the result is that of the last pair in
  iteration order, whose X (and Y) criterion holds if the pull is below its cut or the
  distance is below its cut. The angle/eta variant \<open>isME0MuonSelNew\<close>, when it returns,
  returns true if and only if the muon is an ME0 muon and some pair passes all of its
  cuts; it returns when the geometry knows the chamber of every pair.
\<close>

theorem isME0MuonSel_last_pair:
  "(isME0Muon mu \<and> me0_pairs (matches mu) \<noteq> [] \<longrightarrow>
      isME0MuonSel mu pullXCut dXCut pullYCut dYCut dPhi =
        (case last (me0_pairs (matches mu)) of (c, s) \<Rightarrow>
           (dlt (pullX (me0_pair_vars c s)) pullXCut \<or> dlt (deltaX (me0_pair_vars c s)) dXCut)
           \<and> (dlt (pullY (me0_pair_vars c s)) pullYCut
              \<or> dlt (deltaY (me0_pair_vars c s)) dYCut)
           \<and> dlt (deltaPhi (me0_pair_vars c s)) dPhi))
   \<and> (isME0MuonSelNew geom mu dEtaCut dPhiCut dPhiBendCut = Inr r \<longrightarrow>
        r = (isME0Muon mu \<and>
             (\<exists>(c, s) \<in> set (me0_pairs (matches mu)).
                \<exists>me0. geom (ch_id c) = Some me0
                  \<and> new_pair_passes me0 c s dEtaCut dPhiCut dPhiBendCut)))
   \<and> ((\<forall>(c, s) \<in> set (me0_pairs (matches mu)). geom (ch_id c) \<noteq> None) \<longrightarrow>
        (\<exists>r. isME0MuonSelNew geom mu dEtaCut dPhiCut dPhiBendCut = Inr r))"
proof (intro conjI impI)
  assume a: "isME0Muon mu \<and> me0_pairs (matches mu) \<noteq> []"
  then show "isME0MuonSel mu pullXCut dXCut pullYCut dYCut dPhi =
        (case last (me0_pairs (matches mu)) of (c, s) \<Rightarrow>
           (dlt (pullX (me0_pair_vars c s)) pullXCut \<or> dlt (deltaX (me0_pair_vars c s)) dXCut)
           \<and> (dlt (pullY (me0_pair_vars c s)) pullYCut
              \<or> dlt (deltaY (me0_pair_vars c s)) dYCut)
           \<and> dlt (deltaPhi (me0_pair_vars c s)) dPhi)"
    by (simp add: isME0MuonSel_def sel_chambers_last Let_def case_prod_beta)
next
  assume "isME0MuonSelNew geom mu dEtaCut dPhiCut dPhiBendCut = Inr r"
  then show "r = (isME0Muon mu \<and>
             (\<exists>(c, s) \<in> set (me0_pairs (matches mu)).
                \<exists>me0. geom (ch_id c) = Some me0
                  \<and> new_pair_passes me0 c s dEtaCut dPhiCut dPhiBendCut))"
    using new_chambers_result[of geom "matches mu" dEtaCut dPhiCut dPhiBendCut False r]
    by (auto simp: isME0MuonSelNew_def split: if_splits)
next
  assume "\<forall>(c, s) \<in> set (me0_pairs (matches mu)). geom (ch_id c) \<noteq> None"
  from new_chambers_returns[OF this, of dEtaCut dPhiCut dPhiBendCut False]
  show "\<exists>r. isME0MuonSelNew geom mu dEtaCut dPhiCut dPhiBendCut = Inr r"
    by (auto simp: isME0MuonSelNew_def)
qed

theorem isME0MuonSel_last_pair_witness:
  "isME0Muon ex_muon_forward
   \<and> me0_pairs (matches ex_muon_forward)
       = [(ex_chamber, ex_segment_near), (ex_chamber, ex_segment_far)]
   \<and> \<not> isME0MuonSel ex_muon_forward (Fin 3) (Fin 4) (Fin 3) (Fin 4) (Fin 0.5)
   \<and> isME0MuonSelNew ex_geom ex_muon_forward (Fin 0.077) (Fin 0.056) (Fin 0.0096) = Inr True"
proof -
  have me0: "isME0Muon ex_muon_forward"
    by (simp add: ex_muon_forward_def)
  have pairs: "me0_pairs (matches ex_muon_forward)
                 = [(ex_chamber, ex_segment_near), (ex_chamber, ex_segment_far)]"
    by (simp add: me0_pairs_def ex_muon_forward_def ex_chamber_def)
  have known: "\<forall>(c, s) \<in> set (me0_pairs (matches ex_muon_forward)). ex_geom (ch_id c) \<noteq> None"
    unfolding pairs by (simp add: ex_geom_def ex_chamber_def)
  note main = isME0MuonSel_last_pair[of ex_muon_forward "Fin 3" "Fin 4" "Fin 3" "Fin 4" "Fin 0.5"
      ex_geom "Fin 0.077" "Fin 0.056" "Fin 0.0096"]
  have far: "\<not> dlt (pullX (me0_pair_vars ex_chamber ex_segment_far)) (Fin 3)
           \<and> \<not> dlt (deltaX (me0_pair_vars ex_chamber ex_segment_far)) (Fin 4)"
    by (simp add: me0_pair_vars_def ex_chamber_def ex_segment_far_def dsub_def ddiv_def)
  from main me0 pairs far
  have pull: "\<not> isME0MuonSel ex_muon_forward (Fin 3) (Fin 4) (Fin 3) (Fin 4) (Fin 0.5)"
    by simp
  from main known obtain r where
    r: "isME0MuonSelNew ex_geom ex_muon_forward (Fin 0.077) (Fin 0.056) (Fin 0.0096) = Inr r"
    by blast
  have near: "new_pair_passes (the (ex_geom 1)) ex_chamber ex_segment_near
                (Fin 0.077) (Fin 0.056) (Fin 0.0096)"
    by (simp add: new_pair_passes_def ex_geom_def ex_chamber_def ex_segment_near_def dsub_def)
  have "r" 
    using main[of r] r me0 near unfolding pairs
    by (auto simp: ex_geom_def ex_chamber_def)
  with r me0 pairs pull show ?thesis by simp
qed

section \<open>Degenerate position uncertainties\<close>

text \<open>
  The pull/distance selection has no operation that can fail: no access by index and no
  pointer. Its model is a function to \<^typ>\<open>bool\<close>, whatever the values of the matches.
\<close>

text \<open>
  Two uncertainties that are the negative zero, with a residual of 5: the sum is zero,
  the pull is the negative infinity, it is below the cut 3, and the muon is selected
  although its distance is not below the cut 4.
\<close>

theorem pull_negative_zero_counterexample:
  "is_zero (dadd (ch_xErr ex_chamber_negzero) (seg_xErr ex_segment_negzero))
   \<and> pullX (me0_pair_vars ex_chamber_negzero ex_segment_negzero) = NInf
   \<and> dlt (pullX (me0_pair_vars ex_chamber_negzero ex_segment_negzero)) (Fin 3)
   \<and> \<not> dlt (deltaX (me0_pair_vars ex_chamber_negzero ex_segment_negzero)) (Fin 4)
   \<and> isME0MuonSel ex_muon_negzero (Fin 3) (Fin 4) (Fin 3) (Fin 4) (Fin 0.5)"
  by (simp add: me0_pair_vars_def ex_chamber_negzero_def ex_segment_negzero_def
        ex_muon_negzero_def ex_muon_forward_def isME0MuonSel_def me0_vars_init_def
        dsub_def ddiv_def signed_inf_def)

text \<open>
  Claim C9, amended. In the pull/distance variant, when the sum of the chamber and the
  segment uncertainty is zero or negative, the pull is not finite (NaN or an infinity).
  Its comparison with a finite cut is false unless the pull is the negative infinity,
  which is the case exactly when both uncertainties are the negative zero and the
  residual is above zero; then the comparison is true.
\<close>

theorem pull_degenerate_uncertainty:
  "((is_zero (dadd (ch_xErr c) (seg_xErr s)) \<or> dlt (dadd (ch_xErr c) (seg_xErr s)) (Fin 0))
      \<and> isfinite pullXCut \<longrightarrow>
      \<not> isfinite (pullX (me0_pair_vars c s))
      \<and> (dlt (pullX (me0_pair_vars c s)) pullXCut \<longleftrightarrow> pullX (me0_pair_vars c s) = NInf)
      \<and> (pullX (me0_pair_vars c s) = NInf \<longleftrightarrow>
           ch_xErr c = NZero \<and> seg_xErr s = NZero \<and> dlt (Fin 0) (deltaX (me0_pair_vars c s))))
   \<and> ((is_zero (dadd (ch_yErr c) (seg_yErr s)) \<or> dlt (dadd (ch_yErr c) (seg_yErr s)) (Fin 0))
      \<and> isfinite pullYCut \<longrightarrow>
      \<not> isfinite (pullY (me0_pair_vars c s))
      \<and> (dlt (pullY (me0_pair_vars c s)) pullYCut \<longleftrightarrow> pullY (me0_pair_vars c s) = NInf)
      \<and> (pullY (me0_pair_vars c s) = NInf \<longleftrightarrow>
           ch_yErr c = NZero \<and> seg_yErr s = NZero \<and> dlt (Fin 0) (deltaY (me0_pair_vars c s))))"
  using pull_degenerate[of "ch_xErr c" "seg_xErr s" pullXCut "dsub (ch_x c) (seg_x s)"]
        pull_degenerate[of "ch_yErr c" "seg_yErr s" pullYCut "dsub (ch_y c) (seg_y s)"]
  by (simp add: me0_pair_vars_def)

theorem pull_degenerate_uncertainty_witness:
  "is_zero (dadd (ch_xErr ex_chamber_zero_err) (seg_xErr ex_segment_zero_err))
   \<and> dlt (dadd (ch_yErr ex_chamber_zero_err) (seg_yErr ex_segment_zero_err)) (Fin 0)
   \<and> pullX (me0_pair_vars ex_chamber_zero_err ex_segment_zero_err) = PInf
   \<and> pullY (me0_pair_vars ex_chamber_zero_err ex_segment_zero_err) = NaN
   \<and> \<not> dlt (pullX (me0_pair_vars ex_chamber_zero_err ex_segment_zero_err)) (Fin 3)
   \<and> \<not> dlt (pullY (me0_pair_vars ex_chamber_zero_err ex_segment_zero_err)) (Fin 3)"
proof -
  have hx: "is_zero (dadd (ch_xErr ex_chamber_zero_err) (seg_xErr ex_segment_zero_err))"
    by (simp add: ex_chamber_zero_err_def ex_segment_zero_err_def)
  have hy: "dlt (dadd (ch_yErr ex_chamber_zero_err) (seg_yErr ex_segment_zero_err)) (Fin 0)"
    by (simp add: ex_chamber_zero_err_def ex_segment_zero_err_def)
  have px: "pullX (me0_pair_vars ex_chamber_zero_err ex_segment_zero_err) = PInf"
    by (simp add: me0_pair_vars_def ex_chamber_zero_err_def ex_segment_zero_err_def
        dsub_def ddiv_def signed_inf_def)
  have py: "pullY (me0_pair_vars ex_chamber_zero_err ex_segment_zero_err) = NaN"
    by (simp add: me0_pair_vars_def ex_chamber_zero_err_def ex_segment_zero_err_def
        dsub_def ddiv_def)
  have fin: "isfinite (Fin 3)" by simp
  from pull_degenerate_uncertainty[of ex_chamber_zero_err ex_segment_zero_err "Fin 3" "Fin 3"]
    hx hy fin px py
  show ?thesis by simp
qed

section \<open>Events without a primary vertex\<close>

text \<open>
  Claim C1. An event without a valid primary vertex is processed without a fatal error:
  the tight standard identification and the reconstructed-level extraction are skipped.
  In \<^verbatim>\<open>PatMuonFilter::produce\<close> the first muon that passes the kinematic
  preselection reads \<^verbatim>\<open>vertices->at(prVtx)\<close> with \<^verbatim>\<open>prVtx = -1\<close> before the test
  \<^verbatim>\<open>prVtx > -0.5\<close>, and the exception ends the event: below, for an empty vertex
  collection and for one whose vertices are fake or have too few degrees of freedom.
\<close>

theorem produce_without_primary_vertex:
  "find_prVtx [] = - 1
   \<and> produce ex_geom_empty [] [ex_muon_central] = Inl OutOfRange
   \<and> find_prVtx [\<lparr>isFake = True, ndof = Fin 10\<rparr>, \<lparr>isFake = False, ndof = Fin 4\<rparr>] = - 1
   \<and> produce ex_geom_empty
       [\<lparr>isFake = True, ndof = Fin 10\<rparr>, \<lparr>isFake = False, ndof = Fin 4\<rparr>]
       [ex_muon_central] = Inl OutOfRange"
  by (simp add: produce_def find_prVtx_def produce_muon_def vertices_at_def ex_muon_central_def)

section \<open>The loops of the filter and of the ntuple\<close>

lemma prVtx_loop_range:
  "prVtx_loop vs i p = p \<or> (int i \<le> prVtx_loop vs i p \<and> prVtx_loop vs i p < int (i + length vs))"
proof (induction vs arbitrary: i p)
  case Nil
  then show ?case by simp
next
  case (Cons v vs)
  from Cons.IH[of "Suc i" p] Cons.IH[of "Suc i" "int i"]
  show ?case by (auto simp: prVtx_loop_set)
qed

lemma find_prVtx_range: "find_prVtx vs = - 1 \<or> (0 \<le> find_prVtx vs \<and> find_prVtx vs < int (length vs))"
  using prVtx_loop_range[of vs 0 "- 1"] by (auto simp: find_prVtx_def)

lemma vertices_at_find_prVtx:
  "0 \<le> find_prVtx vs \<Longrightarrow> vertices_at vs (find_prVtx vs) = Inr (vs ! nat (find_prVtx vs))"
  using find_prVtx_range[of vs] by (auto simp: vertices_at_def)

lemma vertices_at_Inr:
  "vertices_at vs i = Inr v \<Longrightarrow> 0 \<le> i \<and> i < int (length vs) \<and> v = vs ! nat i"
  by (auto simp: vertices_at_def split: if_splits)

lemma produce_muon_tiers:
  assumes "produce_muon geom vs prVtx mu = Inr t"
  shows "0 \<le> prVtx \<and> prVtx < int (length vs)
       \<and> inLoose t = (isLooseMuon mu \<or> (2.4 < \<bar>mu_eta mu\<bar> \<and> me0_loose geom mu))
       \<and> inMedium t = (isMediumMuon mu
                        \<or> (2.4 < \<bar>mu_eta mu\<bar> \<and> me0_medium geom (vs ! nat prVtx) mu))
       \<and> inTight t = (isTightMuon mu (vs ! nat prVtx)
                       \<or> (2.4 < \<bar>mu_eta mu\<bar> \<and> me0_tight geom (vs ! nat prVtx) mu))
       \<and> relIso t = muon_relIso mu"
proof -
  from assms obtain v where v: "vertices_at vs prVtx = Inr v"
    by (auto simp: produce_muon_def split: sum.splits)
  note vv = vertices_at_Inr[OF v]
  from assms v obtain b1 where b1: "isME0MuonSelNew geom mu (Fin 0.077) (dPhiCut_loose (mu_p mu))
        (dPhiBendCut_loose (mu_p mu)) = Inr b1"
    by (auto simp: produce_muon_def Let_def split: sum.splits)
  from assms v b1 obtain b2 where b2: "isME0MuonSelNew geom mu (Fin 0.048) (dPhiCut_tight (mu_p mu))
        (dPhiBendCut_tight (mu_p mu)) = Inr b2"
    by (auto simp: produce_muon_def Let_def split: sum.splits)
  note eq = assms[unfolded produce_muon_def Let_def v b1 b2 sum.case]
  have half: "- 0.5 < real_of_int prVtx" using vv by simp
  have l: "me0_loose geom mu = b1"
    unfolding me0_loose_def b1 by simp
  have m: "me0_medium geom v mu = (b1 \<and> (case innerTrack mu of None \<Rightarrow> False
                  | Some t \<Rightarrow> \<bar>bestTrack_dxy mu v\<bar> < 0.2) \<and> (case innerTrack mu of None \<Rightarrow> False
                         | Some t \<Rightarrow> 0 < numberOfValidPixelHits t) \<and> (case innerTrack mu of None \<Rightarrow> False | Some t \<Rightarrow> highPurity t))"
    unfolding me0_medium_def l by (cases "innerTrack mu") auto
  have tt: "me0_tight geom v mu = (b2 \<and> (case innerTrack mu of None \<Rightarrow> False
                  | Some t \<Rightarrow> \<bar>bestTrack_dxy mu v\<bar> < 0.2) \<and> (case innerTrack mu of None \<Rightarrow> False
                 | Some t \<Rightarrow> \<bar>bestTrack_dz mu v\<bar> < 0.5) \<and> (case innerTrack mu of None \<Rightarrow> False
                         | Some t \<Rightarrow> 0 < numberOfValidPixelHits t) \<and> (case innerTrack mu of None \<Rightarrow> False | Some t \<Rightarrow> highPurity t))"
    unfolding me0_tight_def b2 by (cases "innerTrack mu") auto
  from eq have "inLoose t = (isLooseMuon mu \<or> (2.4 < \<bar>mu_eta mu\<bar> \<and> me0_loose geom mu))"
    unfolding l by auto
  moreover from eq have "inMedium t = (isMediumMuon mu \<or> (2.4 < \<bar>mu_eta mu\<bar> \<and> me0_medium geom v mu))"
    unfolding m by auto
  moreover from eq half have "inTight t = (isTightMuon mu v \<or> (2.4 < \<bar>mu_eta mu\<bar> \<and> me0_tight geom v mu))"
    unfolding tt by auto
  moreover from eq have "relIso t = muon_relIso mu"
    unfolding muon_relIso_def by auto
  ultimately show ?thesis using vv by simp
qed

lemma push_muon_fields:
  "LooseMuons (push_muon mu t out) = LooseMuons out @ (if inLoose t then [mu] else [])"
  "LooseMuonRelIso (push_muon mu t out) = LooseMuonRelIso out @ (if inLoose t then [relIso t] else [])"
  "MediumMuons (push_muon mu t out) = MediumMuons out @ (if inMedium t then [mu] else [])"
  "MediumMuonRelIso (push_muon mu t out) = MediumMuonRelIso out @ (if inMedium t then [relIso t] else [])"
  "TightMuons (push_muon mu t out) = TightMuons out @ (if inTight t then [mu] else [])"
  "TightMuonRelIso (push_muon mu t out) = TightMuonRelIso out @ (if inTight t then [relIso t] else [])"
  by (simp_all add: push_muon_def Let_def)

lemma produce_loop_out:
  assumes "produce_loop geom vs prVtx mus out = Inr out'"
  shows "LooseMuons out' = LooseMuons out @
           filter (\<lambda>mu. filter_presel mu
                        \<and> (isLooseMuon mu \<or> (2.4 < \<bar>mu_eta mu\<bar> \<and> me0_loose geom mu))) mus
       \<and> MediumMuons out' = MediumMuons out @
           filter (\<lambda>mu. filter_presel mu
                        \<and> (isMediumMuon mu
                            \<or> (2.4 < \<bar>mu_eta mu\<bar> \<and> me0_medium geom (vs ! nat prVtx) mu))) mus
       \<and> TightMuons out' = TightMuons out @
           filter (\<lambda>mu. filter_presel mu
                        \<and> (isTightMuon mu (vs ! nat prVtx)
                            \<or> (2.4 < \<bar>mu_eta mu\<bar> \<and> me0_tight geom (vs ! nat prVtx) mu))) mus
       \<and> LooseMuonRelIso out' = LooseMuonRelIso out @ map muon_relIso (drop (length (LooseMuons out)) (LooseMuons out'))
       \<and> MediumMuonRelIso out' = MediumMuonRelIso out @ map muon_relIso (drop (length (MediumMuons out)) (MediumMuons out'))
       \<and> TightMuonRelIso out' = TightMuonRelIso out @ map muon_relIso (drop (length (TightMuons out)) (TightMuons out'))"
  using assms
proof (induction mus arbitrary: out)
  case Nil
  then show ?case by simp
next
  case (Cons mu mus)
  show ?case
  proof (cases "filter_presel mu")
    case False
    with Cons.prems have "produce_loop geom vs prVtx mus out = Inr out'"
      by (auto simp: filter_presel_def split: if_splits)
    from Cons.IH[OF this] False show ?thesis by simp
  next
    case True
    with Cons.prems obtain t where t: "produce_muon geom vs prVtx mu = Inr t"
      and rest: "produce_loop geom vs prVtx mus (push_muon mu t out) = Inr out'"
      by (auto simp: filter_presel_def split: if_splits sum.splits)
    note tiers = produce_muon_tiers[OF t]
    from Cons.IH[OF rest] True tiers show ?thesis
      by (simp add: push_muon_fields)
  qed
qed

lemma reco_muons_loop_entries:
  assumes "0 \<le> prVtx" "prVtx < int (length vs)"
  shows "reco_muons_loop d vs prVtx gens mus acc
         = Inr (acc @ map (muon_entry d (vs ! nat prVtx) gens) (filter ntuple_presel mus))"
proof (induction mus arbitrary: acc)
  case Nil
  then show ?case by simp
next
  case (Cons mu mus)
  have v: "vertices_at vs prVtx = Inr (vs ! nat prVtx)"
    using assms by (simp add: vertices_at_def)
  have len: "vs \<noteq> []" using assms by auto
  show ?case
  proof (cases "ntuple_presel mu")
    case False
    then show ?thesis using Cons.IH by (auto simp: ntuple_presel_def)
  next
    case True
    then have p: "\<not> mu_pt mu < 10" "\<not> 3 < \<bar>mu_eta mu\<bar>" by (simp_all add: ntuple_presel_def)
    show ?thesis
      using True
      by (simp add: p v len Cons.IH Let_def muon_entry_def ntuple_muon_id_def muon_relIso_def)
  qed
qed

lemma reco_elecs_loop_entries:
  "reco_elecs_loop d gens els acc = acc @ map (elec_entry d gens) (filter elec_presel els)"
  by (induction els arbitrary: acc) (auto simp: elec_presel_def elec_entry_def ntuple_elec_id_def Let_def)








lemma recoAnalysis_no_vertex:
  "find_prVtx (vertices iEvent) < 0 \<Longrightarrow> recoAnalysis D d iEvent ev = Inr ev"
  by (simp add: recoAnalysis_def)

text \<open>
  Without a primary vertex the ntuple is filled with the generator-level entries of a
  simulated event and with the reconstructed-level entries the record held before, and
  the filter throws at the first muon that passes its preselection.
\<close>

lemma analyze_no_vertex:
  "find_prVtx (vertices iEvent) < 0 \<Longrightarrow>
   analyze D d iEvent ev
     = Inr (if \<not> isRealData iEvent then genAnalysis D iEvent ev else ev)"
  by (simp add: analyze_def recoAnalysis_def)

lemma produce_loop_throws:
  "prVtx < 0 \<Longrightarrow> \<exists>mu \<in> set mus. filter_presel mu \<Longrightarrow>
   produce_loop geom vs prVtx mus out = Inl OutOfRange"
proof (induction mus arbitrary: out)
  case Nil
  then show ?case by simp
next
  case (Cons mu mus)
  have at: "produce_muon geom vs prVtx mu = Inl OutOfRange"
    using Cons.prems(1) by (simp add: produce_muon_def vertices_at_def)
  show ?case
  proof (cases "filter_presel mu")
    case True
    then show ?thesis by (simp add: filter_presel_def at)
  next
    case False
    with Cons.prems have "\<exists>mu \<in> set mus. filter_presel mu" by auto
    from Cons.IH[OF Cons.prems(1) this] False show ?thesis
      by (auto simp: filter_presel_def)
  qed
qed

lemma produce_throws_without_vertex:
  "find_prVtx vs < 0 \<Longrightarrow> \<exists>mu \<in> set mus. filter_presel mu \<Longrightarrow>
   produce geom vs mus = Inl OutOfRange"
  unfolding produce_def by (rule produce_loop_throws)

lemma recoAnalysis_valid:
  assumes "0 \<le> find_prVtx (vertices iEvent)"
  defines "v \<equiv> vertices iEvent ! nat (find_prVtx (vertices iEvent))"
  shows "\<exists>ev'. recoAnalysis D d iEvent ev = Inr ev'
           \<and> l ev' = map (muon_entry d v (gl ev)) (filter ntuple_presel (muons iEvent))
                       @ map (elec_entry d (gl ev)) (filter elec_presel (elecs iEvent))
           \<and> j ev' = fst (reco_jets_loop D d (elecs iEvent) (muons iEvent) (gj ev)
                            (length (l ev')) (jets iEvent) ([], j_id ev))
           \<and> gl ev' = gl ev \<and> gj ev' = gj ev
           \<and> pf ev' = pf_loop D (pfCands iEvent) (pfCands iEvent) []"
proof -
  from assms(1) find_prVtx_range[of "vertices iEvent"]
  have r: "0 \<le> find_prVtx (vertices iEvent)"
    "find_prVtx (vertices iEvent) < int (length (vertices iEvent))" by auto
  have nl: "\<not> find_prVtx (vertices iEvent) < 0" using r by simp
  show ?thesis
    by (simp add: recoAnalysis_def nl reco_muons_loop_entries[OF r] reco_elecs_loop_entries
        Let_def v_def split: prod.splits)
qed

lemma id_bits_decode:
  "(id_bits t m lo div 4 = 1) = lo"
  "(id_bits t m lo div 2 mod 2 = 1) = m"
  "(id_bits t m lo mod 2 = 1) = t"
  by (cases t; cases m; cases lo; simp add: id_bits_def)+

lemma ex_deltaR_same_phi: "ex_deltaR eta1 phi eta2 phi = \<bar>eta1 - eta2\<bar>"
  by (simp add: ex_deltaR_def)

lemma find_prVtx_ex: "find_prVtx [ex_vertex] = 0"
  by (simp add: find_prVtx_def ex_vertex_def)

lemma ex_new_loose:
  "isME0MuonSelNew ex_geom ex_muon_forward (Fin 0.077) (dPhiCut_loose (Fin 20))
     (dPhiBendCut_loose (Fin 20)) = Inr True"
  by (simp add: isME0MuonSelNew_def ex_muon_forward_def ex_chamber_def ex_geom_def
      new_pair_passes_def ex_segment_near_def ex_segment_far_def dsub_def
      dPhiCut_loose_def dPhiBendCut_loose_def std_min_def std_max_def ddiv_def)

lemma ex_new_tight:
  "isME0MuonSelNew ex_geom ex_muon_forward (Fin 0.048) (dPhiCut_tight (Fin 20))
     (dPhiBendCut_tight (Fin 20)) = Inr True"
  by (simp add: isME0MuonSelNew_def ex_muon_forward_def ex_chamber_def ex_geom_def
      new_pair_passes_def ex_segment_near_def ex_segment_far_def dsub_def
      dPhiCut_tight_def dPhiBendCut_tight_def std_min_def std_max_def ddiv_def)

section \<open>Generator association\<close>



section \<open>Tier assignment of muons\<close>

text \<open>
  A forward muon (\<open>|eta| = 2.6\<close>) that passes the kinematic preselection and the three
  standard identifications, and is not an ME0 muon: the ntuple stores none of the three
  tier bits for it.
\<close>

theorem ntuple_forward_standard_counterexample:
  "ntuple_presel ex_muon_std_forward
   \<and> isLooseMuon ex_muon_std_forward \<and> isMediumMuon ex_muon_std_forward
   \<and> isTightMuon ex_muon_std_forward ex_vertex
   \<and> recoAnalysis ex_deltaR ex_deltaR (ex_event [ex_muon_std_forward]) ex_record
     = Inr (ex_record\<lparr>l := [\<lparr>l_id = 0, l_pid = 13, l_pt = 20, l_phi = 0, l_eta = 2.6,
                               l_relIso = 0, l_g = - 1\<rparr>]\<rparr>)"
  by (simp add: ntuple_presel_def ex_muon_std_forward_def ex_muon_central_def recoAnalysis_def
      ex_event_def find_prVtx_ex isME0MuonSel_def id_bits_def ex_record_def)

text \<open>
  Claim C5, amended. In the muon filter, when \<^verbatim>\<open>produce\<close> returns, a muon is in the
  collection of tier T if and only if it passes the kinematic preselection
  (\<open>pt \<ge> 2\<close>, \<open>|eta| \<le> 3\<close>) and passes the standard T predicate or has \<open>|eta| > 2.4\<close> and
  passes the forward (angle/eta ME0) T predicate. In the ntuple, for an event with a
  primary vertex, the muons that pass the preselection (\<open>pt \<ge> 10\<close>, \<open>|eta| \<le> 3\<close>) are
  stored in order, and the bit of tier T is set if and only if the muon has
  \<open>|eta| < 2.4\<close> and passes the standard T predicate, or has \<open>|eta| > 2.4\<close> and passes the
  pull/distance ME0 selection with the deltaPhi cut of the tier (0.5, 0.3, 0.1).
\<close>

theorem muon_tier_assignment:
  "(produce geom vs mus = Inr out \<longrightarrow>
      LooseMuons out =
        filter (\<lambda>mu. filter_presel mu
                      \<and> (isLooseMuon mu \<or> (2.4 < \<bar>mu_eta mu\<bar> \<and> me0_loose geom mu))) mus
      \<and> MediumMuons out =
        filter (\<lambda>mu. filter_presel mu
                      \<and> (isMediumMuon mu
                          \<or> (2.4 < \<bar>mu_eta mu\<bar>
                              \<and> me0_medium geom (vs ! nat (find_prVtx vs)) mu))) mus
      \<and> TightMuons out =
        filter (\<lambda>mu. filter_presel mu
                      \<and> (isTightMuon mu (vs ! nat (find_prVtx vs))
                          \<or> (2.4 < \<bar>mu_eta mu\<bar>
                              \<and> me0_tight geom (vs ! nat (find_prVtx vs)) mu))) mus)
   \<and> (0 \<le> find_prVtx (vertices iEvent) \<and> recoAnalysis D d iEvent ev = Inr ev' \<longrightarrow>
        map l_id (l ev') =
          map (ntuple_muon_id (vertices iEvent ! nat (find_prVtx (vertices iEvent))))
              (filter ntuple_presel (muons iEvent))
          @ map ntuple_elec_id (filter elec_presel (elecs iEvent)))
   \<and> ((ntuple_muon_id v mu div 4 = 1) =
        ((\<bar>mu_eta mu\<bar> < 2.4 \<and> isLooseMuon mu)
         \<or> (2.4 < \<bar>mu_eta mu\<bar> \<and> isME0MuonSel mu (Fin 3) (Fin 4) (Fin 3) (Fin 4) (Fin 0.5))))
   \<and> ((ntuple_muon_id v mu div 2 mod 2 = 1) =
        ((\<bar>mu_eta mu\<bar> < 2.4 \<and> isMediumMuon mu)
         \<or> (2.4 < \<bar>mu_eta mu\<bar> \<and> isME0MuonSel mu (Fin 3) (Fin 4) (Fin 3) (Fin 4) (Fin 0.3))))
   \<and> ((ntuple_muon_id v mu mod 2 = 1) =
        ((\<bar>mu_eta mu\<bar> < 2.4 \<and> isTightMuon mu v)
         \<or> (2.4 < \<bar>mu_eta mu\<bar> \<and> isME0MuonSel mu (Fin 3) (Fin 4) (Fin 3) (Fin 4) (Fin 0.1))))"
proof (intro conjI impI)
  assume run: "produce geom vs mus = Inr out"
  note loop = produce_loop_out[OF run[unfolded produce_def]]
  from loop show "LooseMuons out =
        filter (\<lambda>mu. filter_presel mu
                      \<and> (isLooseMuon mu \<or> (2.4 < \<bar>mu_eta mu\<bar> \<and> me0_loose geom mu))) mus"
    by simp
  from loop show "MediumMuons out =
        filter (\<lambda>mu. filter_presel mu
                      \<and> (isMediumMuon mu
                          \<or> (2.4 < \<bar>mu_eta mu\<bar>
                              \<and> me0_medium geom (vs ! nat (find_prVtx vs)) mu))) mus"
    by simp
  from loop show "TightMuons out =
        filter (\<lambda>mu. filter_presel mu
                      \<and> (isTightMuon mu (vs ! nat (find_prVtx vs))
                          \<or> (2.4 < \<bar>mu_eta mu\<bar>
                              \<and> me0_tight geom (vs ! nat (find_prVtx vs)) mu))) mus"
    by simp
next
  assume a: "0 \<le> find_prVtx (vertices iEvent) \<and> recoAnalysis D d iEvent ev = Inr ev'"
  then have valid: "0 \<le> find_prVtx (vertices iEvent)" by simp
  from recoAnalysis_valid[OF valid, of D d ev] a
  have "l ev' = map (muon_entry d (vertices iEvent ! nat (find_prVtx (vertices iEvent))) (gl ev))
                  (filter ntuple_presel (muons iEvent))
                @ map (elec_entry d (gl ev)) (filter elec_presel (elecs iEvent))"
    by auto
  then show "map l_id (l ev') =
          map (ntuple_muon_id (vertices iEvent ! nat (find_prVtx (vertices iEvent))))
              (filter ntuple_presel (muons iEvent))
          @ map ntuple_elec_id (filter elec_presel (elecs iEvent))"
    by (simp add: muon_entry_def elec_entry_def comp_def)
next
  show "(ntuple_muon_id v mu div 4 = 1) =
        ((\<bar>mu_eta mu\<bar> < 2.4 \<and> isLooseMuon mu)
         \<or> (2.4 < \<bar>mu_eta mu\<bar> \<and> isME0MuonSel mu (Fin 3) (Fin 4) (Fin 3) (Fin 4) (Fin 0.5)))"
    unfolding ntuple_muon_id_def id_bits_decode ..
  show "(ntuple_muon_id v mu div 2 mod 2 = 1) =
        ((\<bar>mu_eta mu\<bar> < 2.4 \<and> isMediumMuon mu)
         \<or> (2.4 < \<bar>mu_eta mu\<bar> \<and> isME0MuonSel mu (Fin 3) (Fin 4) (Fin 3) (Fin 4) (Fin 0.3)))"
    unfolding ntuple_muon_id_def id_bits_decode ..
  show "(ntuple_muon_id v mu mod 2 = 1) =
        ((\<bar>mu_eta mu\<bar> < 2.4 \<and> isTightMuon mu v)
         \<or> (2.4 < \<bar>mu_eta mu\<bar> \<and> isME0MuonSel mu (Fin 3) (Fin 4) (Fin 3) (Fin 4) (Fin 0.1)))"
    unfolding ntuple_muon_id_def id_bits_decode ..
qed

theorem muon_tier_assignment_witness:
  "(\<exists>out. produce ex_geom [ex_vertex] [ex_muon_std_forward, ex_muon_forward] = Inr out
      \<and> LooseMuons out = [ex_muon_std_forward, ex_muon_forward]
      \<and> MediumMuons out = [ex_muon_std_forward]
      \<and> TightMuons out = [ex_muon_std_forward])
   \<and> (\<exists>ev'. recoAnalysis ex_deltaR ex_deltaR
              (ex_event [ex_muon_central, ex_muon_std_forward, ex_muon_forward]) ex_record
            = Inr ev'
      \<and> map l_id (l ev') = [7, 0, 0])"
proof -
  have mp: "mu_p ex_muon_forward = Fin 20" "mu_p ex_muon_std_forward = Fin 20"
    by (simp_all add: ex_muon_forward_def ex_muon_std_forward_def ex_muon_central_def)
  have std_new: "isME0MuonSelNew ex_geom ex_muon_std_forward a b c = Inr False" for a b c
    by (simp add: isME0MuonSelNew_def ex_muon_std_forward_def ex_muon_central_def)
  have m1: "produce_muon ex_geom [ex_vertex] 0 ex_muon_std_forward
            = Inr \<lparr>inLoose = True, inMedium = True, inTight = True, relIso = 0\<rparr>"
    unfolding produce_muon_def Let_def std_new
    by (simp add: vertices_at_def ex_muon_std_forward_def ex_muon_central_def)
  have m2: "produce_muon ex_geom [ex_vertex] 0 ex_muon_forward
            = Inr \<lparr>inLoose = True, inMedium = False, inTight = False, relIso = 0\<rparr>"
    unfolding produce_muon_def Let_def mp ex_new_loose ex_new_tight
    by (simp add: vertices_at_def ex_muon_forward_def ex_muon_central_def)
  have pre: "\<not> mu_pt ex_muon_std_forward < 2" "\<not> 3 < \<bar>mu_eta ex_muon_std_forward\<bar>"
    "\<not> mu_pt ex_muon_forward < 2" "\<not> 3 < \<bar>mu_eta ex_muon_forward\<bar>"
    by (simp_all add: ex_muon_forward_def ex_muon_std_forward_def ex_muon_central_def)
  obtain out where run: "produce ex_geom [ex_vertex] [ex_muon_std_forward, ex_muon_forward] = Inr out"
    by (simp add: produce_def find_prVtx_ex pre m1 m2)
  have fl: "me0_loose ex_geom ex_muon_forward" "\<not> me0_loose ex_geom ex_muon_std_forward"
    unfolding me0_loose_def mp ex_new_loose std_new by simp_all
  have fm: "\<not> me0_medium ex_geom v ex_muon_forward" "\<not> me0_tight ex_geom v ex_muon_forward" for v
    by (simp_all add: me0_medium_def me0_tight_def ex_muon_forward_def ex_muon_central_def)
  have std: "isLooseMuon ex_muon_std_forward" "isMediumMuon ex_muon_std_forward"
    "isTightMuon ex_muon_std_forward v" "\<not> isLooseMuon ex_muon_forward"
    "\<not> isMediumMuon ex_muon_forward" "\<not> isTightMuon ex_muon_forward v"
    "mu_eta ex_muon_forward = 2.6" "mu_eta ex_muon_std_forward = 2.6" for v
    by (simp_all add: ex_muon_forward_def ex_muon_std_forward_def ex_muon_central_def)
  note main = muon_tier_assignment[of ex_geom "[ex_vertex]" "[ex_muon_std_forward, ex_muon_forward]"
      out "ex_event [ex_muon_central, ex_muon_std_forward, ex_muon_forward]"
      ex_deltaR ex_deltaR ex_record]
  from main run have out: "LooseMuons out = [ex_muon_std_forward, ex_muon_forward]
      \<and> MediumMuons out = [ex_muon_std_forward] \<and> TightMuons out = [ex_muon_std_forward]"
    by (simp add: filter_presel_def pre fl fm std)
  have valid: "0 \<le> find_prVtx (vertices (ex_event [ex_muon_central, ex_muon_std_forward, ex_muon_forward]))"
    by (simp add: ex_event_def find_prVtx_ex)
  from recoAnalysis_valid[OF valid, of ex_deltaR ex_deltaR ex_record]
  obtain ev' where reco: "recoAnalysis ex_deltaR ex_deltaR
              (ex_event [ex_muon_central, ex_muon_std_forward, ex_muon_forward]) ex_record = Inr ev'"
    by blast
  have sel: "\<not> isME0MuonSel ex_muon_forward (Fin 3) (Fin 4) (Fin 3) (Fin 4) f" for f
    by (simp add: isME0MuonSel_def ex_muon_forward_def ex_chamber_def me0_vars_init_def
        me0_pair_vars_def ex_segment_far_def ex_segment_near_def dsub_def ddiv_def)
  have ids12: "ntuple_muon_id v ex_muon_central = 7" "ntuple_muon_id v ex_muon_std_forward = 0"
    for v
    by (simp_all add: ntuple_muon_id_def id_bits_def ex_muon_std_forward_def
        ex_muon_central_def isME0MuonSel_def)
  have ids3: "ntuple_muon_id v ex_muon_forward = 0" for v
    unfolding ntuple_muon_id_def using sel
    by (simp add: id_bits_def std)
  note ids = ids12 ids3
  from main[where ?ev' = ev'] valid reco have "map l_id (l ev') = [7, 0, 0]"
    by (simp add: ex_event_def ntuple_presel_def ids)
      (simp add: ex_muon_forward_def ex_muon_std_forward_def ex_muon_central_def ids)
  with run out reco show ?thesis by (intro conjI exI[of _ out] exI[of _ ev']) simp_all
qed

section \<open>Electron identification tiers\<close>

lemma dgt_Fin_mono: "\<not> dgt x (Fin a) \<Longrightarrow> a \<le> b \<Longrightarrow> \<not> dgt x (Fin b)"
  by (cases x) (auto simp: dgt_def)

lemma Ooemoop_ex: "Ooemoop ex_electron = Fin (1 / 50)"
  by (simp add: Ooemoop_def ex_electron_def ddiv_def dsub_def)

lemma if_then_False: "(if c then False else x) = (\<not> c \<and> x)"
  by simp

lemma isLooseElec_conj:
  "isLooseElec patEl =
     (\<not> (1.479 < \<bar>superCluster_eta patEl\<bar> \<and> \<bar>superCluster_eta patEl\<bar> < 1.556)
      \<and> \<not> 0.02992 < full5x5_sigmaIetaIeta patEl
      \<and> \<not> 0.004119 < \<bar>deltaEtaSuperClusterTrackAtVtx patEl\<bar>
      \<and> \<not> 0.05176 < \<bar>deltaPhiSuperClusterTrackAtVtx patEl\<bar>
      \<and> \<not> 6.741 < hcalOverEcal patEl
      \<and> \<not> dgt (ddiv (Fin (sumChargedHadronPt patEl)) (Fin (el_pt patEl))) (Fin 2.5)
      \<and> \<not> dgt (Ooemoop patEl) (Fin 73.76)
      \<and> \<not> hasMatchedConversion patEl)"
  unfolding isLooseElec_def by (simp only: if_then_False simp_thms)

lemma isMediumElec_conj:
  "isMediumElec patEl =
     (\<not> (1.479 < \<bar>superCluster_eta patEl\<bar> \<and> \<bar>superCluster_eta patEl\<bar> < 1.556)
      \<and> \<not> 0.01609 < full5x5_sigmaIetaIeta patEl
      \<and> \<not> 0.001766 < \<bar>deltaEtaSuperClusterTrackAtVtx patEl\<bar>
      \<and> \<not> 0.03130 < \<bar>deltaPhiSuperClusterTrackAtVtx patEl\<bar>
      \<and> \<not> 7.371 < hcalOverEcal patEl
      \<and> \<not> dgt (ddiv (Fin (sumChargedHadronPt patEl)) (Fin (el_pt patEl))) (Fin 1.325)
      \<and> \<not> dgt (Ooemoop patEl) (Fin 22.6)
      \<and> \<not> hasMatchedConversion patEl)"
  unfolding isMediumElec_def by (simp only: if_then_False simp_thms)

lemma isTightElec_conj:
  "isTightElec patEl =
     (\<not> (1.479 < \<bar>superCluster_eta patEl\<bar> \<and> \<bar>superCluster_eta patEl\<bar> < 1.556)
      \<and> \<not> 0.01614 < full5x5_sigmaIetaIeta patEl
      \<and> \<not> 0.001322 < \<bar>deltaEtaSuperClusterTrackAtVtx patEl\<bar>
      \<and> \<not> 0.06129 < \<bar>deltaPhiSuperClusterTrackAtVtx patEl\<bar>
      \<and> \<not> 4.492 < hcalOverEcal patEl
      \<and> \<not> dgt (ddiv (Fin (sumChargedHadronPt patEl)) (Fin (el_pt patEl))) (Fin 1.255)
      \<and> \<not> dgt (Ooemoop patEl) (Fin 18.26)
      \<and> \<not> hasMatchedConversion patEl)"
  unfolding isTightElec_def by (simp only: if_then_False simp_thms)

text \<open>
  Three electrons that differ from one that passes all tiers in one variable: a shower
  width of 0.01612 passes tight (cut 0.01614) and fails medium (cut 0.01609); a
  track-cluster angle of 0.06 passes tight (cut 0.06129) and fails medium (0.03130) and
  loose (0.05176); a hadronic over electromagnetic ratio of 7 passes medium (cut 7.371)
  and fails loose (cut 6.741).
\<close>

theorem electron_tiers_not_nested_counterexample:
  "isTightElec ex_electron_sieie \<and> \<not> isMediumElec ex_electron_sieie
   \<and> isTightElec ex_electron_dphi \<and> \<not> isMediumElec ex_electron_dphi
   \<and> \<not> isLooseElec ex_electron_dphi
   \<and> isMediumElec ex_electron_hoe \<and> \<not> isLooseElec ex_electron_hoe"
  by (simp add: isTightElec_def isMediumElec_def isLooseElec_def ex_electron_sieie_def
      ex_electron_dphi_def ex_electron_hoe_def ex_electron_def Ooemoop_def ddiv_def dsub_def
      dgt_def)

text \<open>
  Claim C2, amended. For every electron (with the conversion collection and the beam
  spot fixed), the tight predicate implies the medium predicate when the electron also
  passes the medium cuts on the shower width (0.01609) and on the track-cluster angle
  deltaPhi (0.03130), and the medium predicate implies the loose predicate when the
  electron also passes the loose cut on the hadronic over electromagnetic ratio (6.741).
  The other thresholds (deltaEta, charged isolation, Ooemoop) tighten from loose to
  medium to tight, and the gap and conversion vetoes are common to the three.
\<close>

theorem electron_tiers_nested_on_common_cuts:
  "(isTightElec patEl \<and> full5x5_sigmaIetaIeta patEl \<le> 0.01609
      \<and> \<bar>deltaPhiSuperClusterTrackAtVtx patEl\<bar> \<le> 0.03130 \<longrightarrow> isMediumElec patEl)
   \<and> (isMediumElec patEl \<and> hcalOverEcal patEl \<le> 6.741 \<longrightarrow> isLooseElec patEl)"
proof (intro conjI impI)
  assume a: "isTightElec patEl \<and> full5x5_sigmaIetaIeta patEl \<le> 0.01609
      \<and> \<bar>deltaPhiSuperClusterTrackAtVtx patEl\<bar> \<le> 0.03130"
  then have t: "\<not> (1.479 < \<bar>superCluster_eta patEl\<bar> \<and> \<bar>superCluster_eta patEl\<bar> < 1.556)"
    "\<not> 0.001322 < \<bar>deltaEtaSuperClusterTrackAtVtx patEl\<bar>"
    "\<not> 4.492 < hcalOverEcal patEl"
    "\<not> dgt (ddiv (Fin (sumChargedHadronPt patEl)) (Fin (el_pt patEl))) (Fin 1.255)"
    "\<not> dgt (Ooemoop patEl) (Fin 18.26)"
    "\<not> hasMatchedConversion patEl"
    unfolding isTightElec_conj by blast+
  have iso: "\<not> dgt (ddiv (Fin (sumChargedHadronPt patEl)) (Fin (el_pt patEl))) (Fin 1.325)"
    using t(4) by (rule dgt_Fin_mono) simp
  have oo: "\<not> dgt (Ooemoop patEl) (Fin 22.6)"
    using t(5) by (rule dgt_Fin_mono) simp
  have deta: "\<not> 0.001766 < \<bar>deltaEtaSuperClusterTrackAtVtx patEl\<bar>"
    using t(2) by simp
  have hoe: "\<not> 7.371 < hcalOverEcal patEl"
    using t(3) by simp
  have sieie: "\<not> 0.01609 < full5x5_sigmaIetaIeta patEl"
    and dphi: "\<not> 0.03130 < \<bar>deltaPhiSuperClusterTrackAtVtx patEl\<bar>"
    using a by (simp_all add: not_less)
  show "isMediumElec patEl"
    unfolding isMediumElec_conj
    using t(1) sieie deta dphi hoe iso oo t(6) by blast
next
  assume a: "isMediumElec patEl \<and> hcalOverEcal patEl \<le> 6.741"
  then have m: "\<not> (1.479 < \<bar>superCluster_eta patEl\<bar> \<and> \<bar>superCluster_eta patEl\<bar> < 1.556)"
    "\<not> 0.01609 < full5x5_sigmaIetaIeta patEl"
    "\<not> 0.001766 < \<bar>deltaEtaSuperClusterTrackAtVtx patEl\<bar>"
    "\<not> 0.03130 < \<bar>deltaPhiSuperClusterTrackAtVtx patEl\<bar>"
    "\<not> dgt (ddiv (Fin (sumChargedHadronPt patEl)) (Fin (el_pt patEl))) (Fin 1.325)"
    "\<not> dgt (Ooemoop patEl) (Fin 22.6)"
    "\<not> hasMatchedConversion patEl"
    unfolding isMediumElec_conj by blast+
  have iso: "\<not> dgt (ddiv (Fin (sumChargedHadronPt patEl)) (Fin (el_pt patEl))) (Fin 2.5)"
    using m(5) by (rule dgt_Fin_mono) simp
  have oo: "\<not> dgt (Ooemoop patEl) (Fin 73.76)"
    using m(6) by (rule dgt_Fin_mono) simp
  have sieie: "\<not> 0.02992 < full5x5_sigmaIetaIeta patEl"
    using m(2) by simp
  have deta: "\<not> 0.004119 < \<bar>deltaEtaSuperClusterTrackAtVtx patEl\<bar>"
    using m(3) by simp
  have dphi: "\<not> 0.05176 < \<bar>deltaPhiSuperClusterTrackAtVtx patEl\<bar>"
    using m(4) by simp
  have hoe: "\<not> 6.741 < hcalOverEcal patEl"
    using a by (simp add: not_less)
  show "isLooseElec patEl"
    unfolding isLooseElec_conj
    using m(1) sieie deta dphi hoe iso oo m(7) by blast
qed

theorem electron_tiers_nested_on_common_cuts_witness:
  "isTightElec ex_electron \<and> isMediumElec ex_electron \<and> isLooseElec ex_electron"
proof -
  have t: "isTightElec ex_electron"
    by (simp add: isTightElec_def Ooemoop_ex dgt_def) (simp add: ex_electron_def ddiv_def)
  have c: "full5x5_sigmaIetaIeta ex_electron \<le> 0.01609"
    "\<bar>deltaPhiSuperClusterTrackAtVtx ex_electron\<bar> \<le> 0.03130"
    "hcalOverEcal ex_electron \<le> 6.741"
    by (simp_all add: ex_electron_def)
  note main = electron_tiers_nested_on_common_cuts[of ex_electron]
  from main t c have m: "isMediumElec ex_electron" by blast
  with main c have "isLooseElec ex_electron" by blast
  with t m show ?thesis by simp
qed

text \<open>
  Claim C8. In every electron tier predicate, the energy-momentum consistency variable
  \<open>Ooemoop\<close> is 0 when \<open>ecalEnergy == 0\<close>, is 998 when \<open>ecalEnergy\<close> is NaN or
  infinite, and otherwise is \<open>|1/E - (E/p)/E|\<close>, where \<open>E\<close> is \<open>ecalEnergy\<close> and \<open>E/p\<close> the
  supercluster energy over momentum; each predicate compares it with its cut (73.76,
  22.6, 18.26).
\<close>

theorem Ooemoop_cases:
  "(deq (ecalEnergy patEl) (Fin 0) \<longrightarrow> Ooemoop patEl = Fin 0)
   \<and> (is_nan (ecalEnergy patEl) \<or> is_inf (ecalEnergy patEl) \<longrightarrow> Ooemoop patEl = Fin 998)
   \<and> (\<not> deq (ecalEnergy patEl) (Fin 0) \<and> isfinite (ecalEnergy patEl) \<longrightarrow>
        Ooemoop patEl = fabs (dsub (ddiv (Fin 1) (ecalEnergy patEl))
                                   (ddiv (eSuperClusterOverP patEl) (ecalEnergy patEl))))
   \<and> (ecalEnergy patEl = Fin E \<and> E \<noteq> 0 \<and> eSuperClusterOverP patEl = Fin r \<longrightarrow>
        Ooemoop patEl = Fin \<bar>1 / E - r / E\<bar>)
   \<and> (isLooseElec patEl \<longrightarrow> \<not> dgt (Ooemoop patEl) (Fin 73.76))
   \<and> (isMediumElec patEl \<longrightarrow> \<not> dgt (Ooemoop patEl) (Fin 22.6))
   \<and> (isTightElec patEl \<longrightarrow> \<not> dgt (Ooemoop patEl) (Fin 18.26))"
proof (intro conjI impI)
  assume "deq (ecalEnergy patEl) (Fin 0)"
  then show "Ooemoop patEl = Fin 0" by (simp add: Ooemoop_def)
next
  assume "is_nan (ecalEnergy patEl) \<or> is_inf (ecalEnergy patEl)"
  then show "Ooemoop patEl = Fin 998"
    by (cases "ecalEnergy patEl") (auto simp: Ooemoop_def)
next
  assume "\<not> deq (ecalEnergy patEl) (Fin 0) \<and> isfinite (ecalEnergy patEl)"
  then show "Ooemoop patEl = fabs (dsub (ddiv (Fin 1) (ecalEnergy patEl))
                                   (ddiv (eSuperClusterOverP patEl) (ecalEnergy patEl)))"
    by (simp add: Ooemoop_def)
next
  assume a: "ecalEnergy patEl = Fin E \<and> E \<noteq> 0 \<and> eSuperClusterOverP patEl = Fin r"
  show "Ooemoop patEl = Fin \<bar>1 / E - r / E\<bar>"
  proof (cases "r = 0")
    case True
    with a show ?thesis
      by (auto simp: Ooemoop_def ddiv_def dsub_def signed_zero_def)
  next
    case False
    with a show ?thesis
      by (auto simp: Ooemoop_def ddiv_def dsub_def)
  qed
next
  assume "isLooseElec patEl"
  then show "\<not> dgt (Ooemoop patEl) (Fin 73.76)"
    unfolding isLooseElec_conj by blast
next
  assume "isMediumElec patEl"
  then show "\<not> dgt (Ooemoop patEl) (Fin 22.6)"
    unfolding isMediumElec_conj by blast
next
  assume "isTightElec patEl"
  then show "\<not> dgt (Ooemoop patEl) (Fin 18.26)"
    unfolding isTightElec_conj by blast
qed

theorem Ooemoop_cases_witness:
  "Ooemoop (ex_electron\<lparr>ecalEnergy := Fin 0\<rparr>) = Fin 0
   \<and> Ooemoop (ex_electron\<lparr>ecalEnergy := NZero\<rparr>) = Fin 0
   \<and> Ooemoop (ex_electron\<lparr>ecalEnergy := NaN\<rparr>) = Fin 998
   \<and> Ooemoop (ex_electron\<lparr>ecalEnergy := PInf\<rparr>) = Fin 998
   \<and> Ooemoop (ex_electron\<lparr>ecalEnergy := NInf\<rparr>) = Fin 998
   \<and> Ooemoop ex_electron = Fin (1 / 50)
   \<and> isTightElec ex_electron
   \<and> \<not> dgt (Ooemoop ex_electron) (Fin 18.26)"
proof -
  have t: "isTightElec ex_electron"
    by (simp add: isTightElec_def Ooemoop_ex dgt_def) (simp add: ex_electron_def ddiv_def)
  have e: "ecalEnergy ex_electron = Fin 50 \<and> (50::real) \<noteq> 0
           \<and> eSuperClusterOverP ex_electron = Fin 2"
    by (simp add: ex_electron_def)
  from Ooemoop_cases[of "ex_electron\<lparr>ecalEnergy := Fin 0\<rparr>"]
  have a: "Ooemoop (ex_electron\<lparr>ecalEnergy := Fin 0\<rparr>) = Fin 0" by simp
  from Ooemoop_cases[of "ex_electron\<lparr>ecalEnergy := NZero\<rparr>"]
  have b: "Ooemoop (ex_electron\<lparr>ecalEnergy := NZero\<rparr>) = Fin 0" by simp
  from Ooemoop_cases[of "ex_electron\<lparr>ecalEnergy := NaN\<rparr>"]
  have c: "Ooemoop (ex_electron\<lparr>ecalEnergy := NaN\<rparr>) = Fin 998" by simp
  from Ooemoop_cases[of "ex_electron\<lparr>ecalEnergy := PInf\<rparr>"]
  have d: "Ooemoop (ex_electron\<lparr>ecalEnergy := PInf\<rparr>) = Fin 998" by simp
  from Ooemoop_cases[of "ex_electron\<lparr>ecalEnergy := NInf\<rparr>"]
  have f: "Ooemoop (ex_electron\<lparr>ecalEnergy := NInf\<rparr>) = Fin 998" by simp
  note formula = Ooemoop_cases[of ex_electron 50 2, THEN conjunct2, THEN conjunct2,
      THEN conjunct2, THEN conjunct1, rule_format, OF e]
  have g: "Ooemoop ex_electron = Fin (1 / 50)" using formula by simp
  from Ooemoop_cases[of ex_electron] t
  have h: "\<not> dgt (Ooemoop ex_electron) (Fin 18.26)" by blast
  from a b c d f g t h show ?thesis by simp
qed

section \<open>Isolation sums\<close>

text \<open>
  The generator-level sum skips a constituent at an angular distance below 0.01: the
  sum over the lepton itself is zero.
\<close>

lemma genIso_self:
  "DeltaR (c_eta part) (c_phi part) (c_eta part) (c_phi part) < 0.01 \<Longrightarrow>
   genIso_constituents DeltaR part [part] 0 = 0"
  by simp

text \<open>
  Claim C3. The isolation sum adds the pt of the pool entries within the cone of the
  candidate (0.4 for a muon, 0.3 for an electron), leaves out the candidate itself
  (angular distance below 0.01) and divides by the pt of the candidate, so that the
  isolation from a pool that holds the candidate alone is 0. The generator-level sum of
  \<^verbatim>\<open>genAnalysis\<close> does so. The particle-flow sum of \<^verbatim>\<open>recoAnalysis\<close> has no test for
  the candidate itself, and its cone is 0.4 for an electron and 0.3 otherwise: for a
  muon alone in the pool it is 1, a hadron at the distance 0.35 is left out for a muon
  and counted for an electron. The values of both sums on these pools are below.
\<close>

theorem isoPF_counts_candidate:
  "isoPF_of ex_deltaR ex_pf_muon [ex_pf_muon] = 1
   \<and> pf_loop ex_deltaR [ex_pf_muon] [ex_pf_muon] []
       = [\<lparr>pf_pid = 13, pf_pt = 20, pf_eta = 0, pf_phi = 0, pf_relIso = 1\<rparr>]
   \<and> isoPF_of ex_deltaR ex_pf_muon [ex_pf_muon, ex_pf_hadron] = 1
   \<and> isoPF_of ex_deltaR ex_pf_electron [ex_pf_electron, ex_pf_hadron] = 5 / 4
   \<and> genIso_of ex_deltaR ex_pf_muon
       [\<lparr>gjet_pt = 30, gjet_eta = 0, gjet_phi = 0, jetConstituents = [ex_pf_muon]\<rparr>] = 0
   \<and> genIso_of ex_deltaR ex_pf_muon
       [\<lparr>gjet_pt = 30, gjet_eta = 0, gjet_phi = 0,
         jetConstituents = [ex_pf_muon, ex_pf_hadron]\<rparr>] = 1 / 4
   \<and> genIso_of ex_deltaR ex_pf_electron
       [\<lparr>gjet_pt = 30, gjet_eta = 0, gjet_phi = 0,
         jetConstituents = [ex_pf_electron, ex_pf_hadron]\<rparr>] = 0"
  by (simp add: isoPF_of_def genIso_of_def ex_pf_muon_def ex_pf_electron_def ex_pf_hadron_def
      ex_deltaR_same_phi Let_def)

end
